theory Spec2Isabelle
  imports Main "HOL-Library.Word"
begin

text \<open>
  A shallow embedding of the cron dispatcher of \<open>src/worker.ts\<close>: the job registry and
  the two schedule tables, \<open>fullUrl\<close>, \<open>shouldAlert\<close>, \<open>slackTextForFailure\<close>, \<open>runJob\<close>,
  \<open>postSlack\<close>, and the two handlers \<open>fetch\<close> and \<open>scheduled\<close>. The platform (the global
  \<open>fetch\<close>, the clock) is a parameter, the outside world is a state that every call may
  change, and what a handler does to the outside is returned as a list of events. A
  promise is the value it settles to: \<open>Inr\<close> when fulfilled, \<open>Inl\<close> when rejected.
\<close>

section \<open>JavaScript strings and numbers\<close>

text \<open>
  A JavaScript string is a sequence of UTF-16 code units; \<open>length\<close>, \<open>slice\<close>,
  \<open>startsWith\<close>, \<open>trim\<close> and \<open>===\<close> all work on code units. A string is therefore
  a list of 16-bit words, and \<open>js\<close> embeds an ASCII literal of the source.
\<close>

type_synonym code_unit = "16 word"
type_synonym jsstring = "code_unit list"

definition js :: "string \<Rightarrow> jsstring" where
  "js s = map of_char s"

text \<open>
  \<open>String(n)\<close> and \<open>`${n}`\<close> for an integer \<open>n\<close> (below \<open>10^21\<close> in magnitude, which
  holds for HTTP statuses, list lengths and millisecond durations): the decimal digits,
  with a minus sign for a negative number.
\<close>

fun show_nat :: "nat \<Rightarrow> jsstring" where
  "show_nat n =
     (if n < 10 then [of_nat (48 + n)]
      else show_nat (n div 10) @ [of_nat (48 + n mod 10)])"

declare show_nat.simps [simp del]

definition show_int :: "int \<Rightarrow> jsstring" where
  "show_int i = (if i < 0 then js ''-'' @ show_nat (nat (- i)) else show_nat (nat i))"

text \<open>\<open>s.startsWith(p)\<close>.\<close>

definition startsWith :: "jsstring \<Rightarrow> jsstring \<Rightarrow> bool" where
  "startsWith s p = (take (length p) s = p)"

text \<open>
  \<open>s.replace(/\/+$/, '')\<close>: the regular expression has no \<open>g\<close> and no \<open>m\<close> flag, so
  the leftmost match is replaced, and \<open>$\<close> matches at the end of the input only. The
  matcher tries each start position from the left; at a position it succeeds when the
  code unit there is a slash and only slashes follow up to the end. The match then
  reaches the end, so everything from that position on is removed.
\<close>

definition slash :: code_unit where
  "slash = 0x2F"

fun strip_trailing_slashes :: "jsstring \<Rightarrow> jsstring" where
  "strip_trailing_slashes [] = []"
| "strip_trailing_slashes (c # cs) =
     (if c = slash \<and> list_all (\<lambda>d. d = slash) cs then []
      else c # strip_trailing_slashes cs)"

text \<open>
  \<open>s.trim()\<close> removes the white space and line terminator code units of ECMAScript
  from both ends: TAB, LF, VT, FF, CR, SP, NBSP, U+1680, U+2000 to U+200A, U+2028,
  U+2029, U+202F, U+205F, U+3000 and U+FEFF.
\<close>

definition is_js_whitespace :: "code_unit \<Rightarrow> bool" where
  "is_js_whitespace c =
     (c \<in> set [0x9, 0xA, 0xB, 0xC, 0xD, 0x20, 0xA0, 0x1680,
                0x2000, 0x2001, 0x2002, 0x2003, 0x2004, 0x2005, 0x2006, 0x2007,
                0x2008, 0x2009, 0x200A, 0x2028, 0x2029, 0x202F, 0x205F, 0x3000, 0xFEFF])"

definition trim :: "jsstring \<Rightarrow> jsstring" where
  "trim s = rev (dropWhile is_js_whitespace (rev (dropWhile is_js_whitespace s)))"

section \<open>Data model of \<open>src/worker.ts\<close>\<close>

datatype Platform = worker | web

datatype JobKey =
    createDailyChronicles
  | processIncompleteChronicles
  | syncChroniclesUpdates
  | syncUserStakes
  | provideLiquidity
  | shieldClean
  | recordDacPerformance
  | healthz

text \<open>A job key inside a template literal prints as its own name.\<close>

fun job_name :: "JobKey \<Rightarrow> jsstring" where
  "job_name createDailyChronicles = js ''createDailyChronicles''"
| "job_name processIncompleteChronicles = js ''processIncompleteChronicles''"
| "job_name syncChroniclesUpdates = js ''syncChroniclesUpdates''"
| "job_name syncUserStakes = js ''syncUserStakes''"
| "job_name provideLiquidity = js ''provideLiquidity''"
| "job_name shieldClean = js ''shieldClean''"
| "job_name recordDacPerformance = js ''recordDacPerformance''"
| "job_name healthz = js ''healthz''"

text \<open>
  \<open>Env\<close>. The interface declares every binding but the webhook a string. The handler
  reads \<open>ENABLED\<close> through \<open>?? 'false'\<close> and the webhook through \<open>?.\<close>, so these two
  may be unset; the URLs and the key are strings, as declared.
\<close>

record Env =
  BASE_URL :: jsstring
  WEB_URL :: jsstring
  INTERNAL_API_KEY :: jsstring
  ENABLED :: "jsstring option"
  SLACK_WEBHOOK_URL :: "jsstring option"

text \<open>
  An entry of \<open>JOB_ENDPOINT\<close>. The source calls the first field \<open>method\<close>, which is
  not available as a field name here.
\<close>

record endpoint =
  http_method :: jsstring
  path :: jsstring

fun JOB_ENDPOINT :: "JobKey \<Rightarrow> endpoint" where
  "JOB_ENDPOINT createDailyChronicles =
     \<lparr>http_method = js ''POST'', path = js ''/api/internal/create-daily-chronicles''\<rparr>"
| "JOB_ENDPOINT processIncompleteChronicles =
     \<lparr>http_method = js ''POST'', path = js ''/api/internal/process-incomplete-chronicles''\<rparr>"
| "JOB_ENDPOINT syncChroniclesUpdates =
     \<lparr>http_method = js ''POST'', path = js ''/api/internal/sync-chronicles-updates''\<rparr>"
| "JOB_ENDPOINT syncUserStakes =
     \<lparr>http_method = js ''POST'', path = js ''/api/internal/sync-user-stakes''\<rparr>"
| "JOB_ENDPOINT provideLiquidity =
     \<lparr>http_method = js ''POST'', path = js ''/api/internal/provide-liquidity''\<rparr>"
| "JOB_ENDPOINT shieldClean =
     \<lparr>http_method = js ''POST'', path = js ''/api/internal/shield-clean''\<rparr>"
| "JOB_ENDPOINT recordDacPerformance =
     \<lparr>http_method = js ''POST'', path = js ''/api/internal/record-dac-performance''\<rparr>"
| "JOB_ENDPOINT healthz =
     \<lparr>http_method = js ''GET'', path = js ''/api/healthz''\<rparr>"

text \<open>
  The two schedule tables, in the order the source lists them: the own entries of two
  object literals.
\<close>

definition WORKER_CRON_TO_JOBS :: "(jsstring \<times> JobKey list) list" where
  "WORKER_CRON_TO_JOBS =
     [(js ''0,30 12-23 * * *'', [createDailyChronicles]),
      (js ''15 13-15 * * *'', [processIncompleteChronicles]),
      (js ''*/1 * * * *'', [syncChroniclesUpdates, syncUserStakes, healthz]),
      (js ''0 * * * *'', [provideLiquidity]),
      (js ''*/15 * * * *'', [shieldClean, recordDacPerformance])]"

definition WEB_CRON_TO_JOBS :: "(jsstring \<times> JobKey list) list" where
  "WEB_CRON_TO_JOBS =
     [(js ''0,30 12-23 * * *'', []),
      (js ''15 13-15 * * *'', []),
      (js ''*/1 * * * *'', [healthz]),
      (js ''0 * * * *'', []),
      (js ''*/15 * * * *'', [])]"

text \<open>
  \<open>table[key]\<close> on an object literal finds the own entry for the key and, when there is
  none, the member that the object inherits from \<open>Object.prototype\<close> under that name.
  What the handler reads of the value it gets is its \<open>length\<close> and its \<open>map\<close>: an
  own entry is an array of job keys; an inherited member is a function, with its number
  of parameters as \<open>length\<close>, or (for \<open>__proto__\<close>) the prototype object, which has no
  \<open>length\<close>; no inherited member has a \<open>map\<close>. All of them are truthy.
\<close>

datatype js_property = OwnJobs "JobKey list" | Inherited "nat option"

definition Object_prototype :: "(jsstring \<times> nat option) list" where
  "Object_prototype =
     [(js ''constructor'', Some 1),
      (js ''__defineGetter__'', Some 2),
      (js ''__defineSetter__'', Some 2),
      (js ''hasOwnProperty'', Some 1),
      (js ''__lookupGetter__'', Some 1),
      (js ''__lookupSetter__'', Some 1),
      (js ''isPrototypeOf'', Some 1),
      (js ''propertyIsEnumerable'', Some 1),
      (js ''toString'', Some 0),
      (js ''valueOf'', Some 0),
      (js ''toLocaleString'', Some 0),
      (js ''__proto__'', None)]"

definition get_property :: "(jsstring \<times> JobKey list) list \<Rightarrow> jsstring \<Rightarrow> js_property option" where
  "get_property table key =
     (case map_of table key of
        Some l \<Rightarrow> Some (OwnJobs l)
      | None \<Rightarrow> map_option Inherited (map_of Object_prototype key))"

text \<open>\<open>value.length\<close>: a number, or undefined.\<close>

fun property_length :: "js_property \<Rightarrow> nat option" where
  "property_length (OwnJobs l) = Some (length l)"
| "property_length (Inherited n) = n"

text \<open>
  \<open>JobResult = JobResultOk | JobResultErr\<close>, a union tagged by \<open>ok\<close>. The status of a
  failed result is optional, and so is its body; a successful result has no body.
\<close>

datatype JobResult =
    ok: JobResultOk (job: JobKey) (ok_status: nat) (ms: int)
      (url: jsstring) (baseUrl: jsstring)
  | JobResultErr (job: JobKey) (err_status: "nat option") (ms: int)
      (url: jsstring) (baseUrl: jsstring) (error: jsstring) (body: "jsstring option")
  where "body (JobResultOk j s m u b) = None"

text \<open>\<open>jobResult.status\<close> on the union: a number, or undefined.\<close>

fun status :: "JobResult \<Rightarrow> nat option" where
  "status (JobResultOk j s m u b) = Some s"
| "status (JobResultErr j s m u b e bd) = s"

section \<open>Pure helpers\<close>

text \<open>\<open>fullUrl\<close> (lines 76 to 88) returns \<open>{ url, method, baseUrl }\<close>, here a triple.\<close>

definition fullUrl :: "Platform \<Rightarrow> Env \<Rightarrow> endpoint \<Rightarrow> jsstring \<times> jsstring \<times> jsstring" where
  "fullUrl platform env ep =
     (let base = (if platform = worker then BASE_URL env else WEB_URL env)
      in (strip_trailing_slashes base @ path ep, http_method ep, base))"

text \<open>\<open>shouldAlert\<close> (lines 92 to 102); the argument is optional.\<close>

fun shouldAlert :: "JobResult option \<Rightarrow> bool" where
  "shouldAlert None = True"
| "shouldAlert (Some jobResult) =
     (if status jobResult = Some 503 \<or> status jobResult = Some 409 then False
      else if status jobResult = Some 524 \<and> job jobResult = provideLiquidity then False
      else True)"

text \<open>\<open>slackTextForFailure\<close> (lines 119 to 144). An empty body is falsy and adds nothing.\<close>

record failure_opts =
  opt_cron :: jsstring
  opt_job :: JobKey
  opt_url :: jsstring
  opt_status :: "nat option"
  opt_ms :: int
  opt_baseUrl :: jsstring
  opt_timestampISO :: jsstring
  opt_body :: "jsstring option"

definition newline :: jsstring where
  "newline = [0xA]"

definition bullet :: jsstring where
  "bullet = [0x2022]"

definition fence :: jsstring where
  "fence = [0x60, 0x60, 0x60]"

definition slackTextForFailure :: "failure_opts \<Rightarrow> jsstring" where
  "slackTextForFailure opts =
     (let statusStr = (case opt_status opts of Some s \<Rightarrow> show_nat s | None \<Rightarrow> js ''network error'');
          bodySnippet =
            (case opt_body opts of
               None \<Rightarrow> []
             | Some b \<Rightarrow>
                 if b = [] then []
                 else newline @ bullet @ js '' *Body (trimmed)*:'' @ newline @ fence @ newline
                      @ b @ newline @ fence)
      in js '':rotating_light: *Cron job failed* ('' @ opt_cron opts @ js '')'' @ newline
         @ bullet @ js '' *Job*: '' @ job_name (opt_job opts) @ newline
         @ bullet @ js '' *Status*: '' @ statusStr @ newline
         @ bullet @ js '' *Duration*: '' @ show_int (opt_ms opts) @ js ''ms'' @ newline
         @ bullet @ js '' *When*: '' @ opt_timestampISO opts @ newline
         @ bullet @ js '' *URL*: '' @ opt_url opts @ newline
         @ bullet @ js '' *BASE_URL*: '' @ opt_baseUrl opts
         @ bodySnippet)"

section \<open>The runtime\<close>

text \<open>
  A value caught by \<open>catch (e)\<close>: an object with a \<open>message\<close> (what \<open>fetch\<close> throws and
  what \<open>new Error(m)\<close> builds), or any other value, given by its \<open>String(e)\<close>.
  \<open>message_of\<close> is \<open>e?.message ?? String(e)\<close>.
\<close>

datatype thrown = ErrorObject jsstring | OtherValue jsstring

fun message_of :: "thrown \<Rightarrow> jsstring" where
  "message_of (ErrorObject m) = m"
| "message_of (OtherValue s) = s"

text \<open>
  What the handler reads of a \<open>Response\<close>: \<open>ok\<close>, \<open>status\<close>, and the outcome of
  \<open>text()\<close> (\<open>None\<close> when reading the body fails).
\<close>

record response =
  res_ok :: bool
  res_status :: nat
  res_text :: "jsstring option"

datatype fetch_outcome = Resolved response | Rejected thrown

text \<open>The body of an alert request is \<open>JSON.stringify({ text })\<close>, kept as the object.\<close>

record slack_payload =
  payload_text :: jsstring

record request =
  req_url :: jsstring
  req_method :: jsstring
  req_headers :: "(jsstring \<times> jsstring) list"
  req_body :: "slack_payload option"

text \<open>
  The platform, over a state \<open>'w\<close> of the outside world: the global \<open>fetch\<close>, the clock
  behind \<open>Date.now()\<close> and \<open>new Date()\<close>, and \<open>toISOString\<close>. Each call may change
  the world, and two calls with the same request may be answered differently.
\<close>

record 'w runtime =
  rt_fetch :: "request \<Rightarrow> 'w \<Rightarrow> fetch_outcome \<times> 'w"
  rt_now :: "'w \<Rightarrow> int \<times> 'w"
  rt_toISOString :: "int \<Rightarrow> jsstring"

text \<open>
  What a handler does to the outside: the requests it sends, tagged by the call site
  (\<open>runJob\<close> or \<open>postSlack\<close>), and the lines it writes with \<open>console.log\<close> and
  \<open>console.error\<close>.
\<close>

datatype event =
    is_JobFetch: JobFetch request
  | is_SlackFetch: SlackFetch request
  | ConsoleLog jsstring
  | ConsoleError jsstring

definition nowISO :: "'w runtime \<Rightarrow> 'w \<Rightarrow> jsstring \<times> 'w" where
  "nowISO rt w = (case rt_now rt w of (t, w') \<Rightarrow> (rt_toISOString rt t, w'))"

section \<open>The job runner\<close>

text \<open>The request \<open>runJob\<close> builds (lines 175 and 179 to 184).\<close>

definition job_request :: "Platform \<Rightarrow> JobKey \<Rightarrow> Env \<Rightarrow> request" where
  "job_request platform jobKey env =
     (case fullUrl platform env (JOB_ENDPOINT jobKey) of
        (u, m, base) \<Rightarrow>
          \<lparr>req_url = u, req_method = m,
           req_headers =
             (if startsWith (path (JOB_ENDPOINT jobKey)) (js ''/api/internal/'')
              then [(js ''Internal-Authorization'', INTERNAL_API_KEY env)]
              else []),
           req_body = None\<rparr>)"

text \<open>
  The \<open>try\<close> block of \<open>runJob\<close> (lines 179 to 210). A rejected \<open>fetch\<close> leaves the
  block as \<open>Inl\<close>; a failure of \<open>res.text()\<close> is replaced by the empty string.
\<close>

definition runJob_try ::
  "'w runtime \<Rightarrow> Platform \<Rightarrow> JobKey \<Rightarrow> Env \<Rightarrow> int \<Rightarrow> 'w
     \<Rightarrow> (thrown + JobResult) \<times> event list \<times> 'w" where
  "runJob_try rt platform jobKey env started w1 =
     (case fullUrl platform env (JOB_ENDPOINT jobKey) of
        (u, m, base) \<Rightarrow>
          let req = job_request platform jobKey env in
          (case rt_fetch rt req w1 of
             (Rejected e, w2) \<Rightarrow> (Inl e, [JobFetch req], w2)
           | (Resolved res, w2) \<Rightarrow>
               (case rt_now rt w2 of
                  (t1, w3) \<Rightarrow>
                    let dur = t1 - started in
                    if \<not> res_ok res then
                      let txt = (case res_text res of None \<Rightarrow> [] | Some b \<Rightarrow> b);
                          trimmed = take 1500 txt
                      in (case nowISO rt w3 of
                            (ts, w4) \<Rightarrow>
                              (Inr (JobResultErr jobKey (Some (res_status res)) dur u base
                                      (js ''HTTP '' @ show_nat (res_status res)) (Some trimmed)),
                               [JobFetch req,
                                ConsoleError
                                  (js ''['' @ ts @ js ''] job='' @ job_name jobKey
                                   @ js '' status='' @ show_nat (res_status res)
                                   @ js '' durMs='' @ show_int dur
                                   @ js '' url='' @ u @ js '' body='' @ trimmed)],
                               w4))
                    else
                      (case nowISO rt w3 of
                         (ts, w4) \<Rightarrow>
                           (Inr (JobResultOk jobKey (res_status res) dur u base),
                            [JobFetch req,
                             ConsoleLog
                               (js ''['' @ ts @ js ''] job='' @ job_name jobKey
                                @ js '' OK status='' @ show_nat (res_status res)
                                @ js '' durMs='' @ show_int dur @ js '' url='' @ u)],
                            w4)))))"

text \<open>
  \<open>runJob\<close> (lines 170 to 219): the clock is read, the \<open>try\<close> block runs, and the
  \<open>catch\<close> clause turns what the block threw into a failed result without a status.
  The value is \<open>Inl\<close> when the returned promise rejects.
\<close>

definition runJob ::
  "'w runtime \<Rightarrow> Platform \<Rightarrow> JobKey \<Rightarrow> Env \<Rightarrow> 'w
     \<Rightarrow> (thrown + JobResult) \<times> event list \<times> 'w" where
  "runJob rt platform jobKey env w0 =
     (case fullUrl platform env (JOB_ENDPOINT jobKey) of
        (u, m, base) \<Rightarrow>
          (case rt_now rt w0 of
             (started, w1) \<Rightarrow>
               (case runJob_try rt platform jobKey env started w1 of
                  (Inr r, tr, w2) \<Rightarrow> (Inr r, tr, w2)
                | (Inl e, tr, w2) \<Rightarrow>
                    (case rt_now rt w2 of
                       (t1, w3) \<Rightarrow>
                         let dur = t1 - started;
                             message = message_of e
                         in (case nowISO rt w3 of
                               (ts, w4) \<Rightarrow>
                                 (Inr (JobResultErr jobKey None dur u base message None),
                                  tr @ [ConsoleError
                                          (js ''['' @ ts @ js ''] job='' @ job_name jobKey
                                           @ js '' fetch error durMs='' @ show_int dur
                                           @ js '' url='' @ u @ js '' err='' @ message)],
                                  w4))))))"

section \<open>Alert delivery\<close>

text \<open>
  \<open>postSlack\<close> (lines 104 to 117): one POST to the webhook; a response that is not ok
  and a rejected \<open>fetch\<close> are logged, and nothing leaves the function.
\<close>

definition postSlack ::
  "'w runtime \<Rightarrow> jsstring \<Rightarrow> slack_payload \<Rightarrow> 'w \<Rightarrow> event list \<times> 'w" where
  "postSlack rt webhook payload w0 =
     (let req = \<lparr>req_url = webhook, req_method = js ''POST'',
                 req_headers = [(js ''Content-Type'', js ''application/json'')],
                 req_body = Some payload\<rparr>
      in (case rt_fetch rt req w0 of
            (Resolved res, w1) \<Rightarrow>
              if \<not> res_ok res then
                (case nowISO rt w1 of
                   (ts, w2) \<Rightarrow>
                     ([SlackFetch req,
                       ConsoleError (js ''['' @ ts @ js ''] Slack webhook failed status=''
                                     @ show_nat (res_status res))],
                      w2))
              else ([SlackFetch req], w1)
          | (Rejected e, w1) \<Rightarrow>
              (case nowISO rt w1 of
                 (ts, w2) \<Rightarrow>
                   ([SlackFetch req,
                     ConsoleError (js ''['' @ ts @ js ''] Slack webhook error: '' @ message_of e)],
                    w2))))"

text \<open>
  The \<open>map\<close> of lines 280 to 293 over the failed, alert-worthy results: for each, the
  timestamp is read and the alert is posted.
\<close>

fun post_alerts ::
  "'w runtime \<Rightarrow> jsstring \<Rightarrow> jsstring \<Rightarrow> JobResult list \<Rightarrow> 'w \<Rightarrow> event list \<times> 'w" where
  "post_alerts rt cron webhook [] w = ([], w)"
| "post_alerts rt cron webhook (r # rs) w =
     (case nowISO rt w of
        (ts, w1) \<Rightarrow>
          (case postSlack rt webhook
                  \<lparr>payload_text =
                     slackTextForFailure
                       \<lparr>opt_cron = cron, opt_job = job r, opt_url = url r,
                        opt_status = status r, opt_ms = ms r, opt_baseUrl = baseUrl r,
                        opt_timestampISO = ts, opt_body = body r\<rparr>\<rparr> w1 of
             (tr, w2) \<Rightarrow>
               (case post_alerts rt cron webhook rs w2 of
                  (trs, w3) \<Rightarrow> (tr @ trs, w3))))"

text \<open>
  Lines 274 to 298: the webhook is trimmed when set, and alerts go out only when the
  trimmed string is not empty.
\<close>

definition send_alerts ::
  "'w runtime \<Rightarrow> jsstring \<Rightarrow> Env \<Rightarrow> JobResult list \<Rightarrow> 'w \<Rightarrow> event list \<times> 'w" where
  "send_alerts rt cron env results w =
     (case map_option trim (SLACK_WEBHOOK_URL env) of
        None \<Rightarrow> ([], w)
      | Some webhook \<Rightarrow>
          if webhook = [] then ([], w)
          else post_alerts rt cron webhook
                 (filter (\<lambda>r. shouldAlert (Some r)) (filter (\<lambda>r. \<not> ok r) results)) w)"

section \<open>The handlers\<close>

text \<open>
  \<open>jobs.map(j => runJob(platform, j, env))\<close> over the due jobs of both tables (lines
  268 to 271), each job paired with its platform. The calls run concurrently in the
  source; the model takes them one after the other in the order of the list, which is
  also the order of the results that \<open>Promise.all\<close> delivers.
\<close>

fun run_jobs ::
  "'w runtime \<Rightarrow> Env \<Rightarrow> (Platform \<times> JobKey) list \<Rightarrow> 'w
     \<Rightarrow> (thrown + JobResult) list \<times> event list \<times> 'w" where
  "run_jobs rt env [] w = ([], [], w)"
| "run_jobs rt env ((platform, j) # pjs) w =
     (case runJob rt platform j env w of
        (r, tr, w1) \<Rightarrow>
          (case run_jobs rt env pjs w1 of
             (rs, trs, w2) \<Rightarrow> (r # rs, tr @ trs, w2)))"

text \<open>\<open>Promise.all\<close>: the list of the values, or the rejection of a promise that rejects.\<close>

fun promise_all :: "(thrown + 'a) list \<Rightarrow> thrown + 'a list" where
  "promise_all [] = Inr []"
| "promise_all (Inl e # ps) = Inl e"
| "promise_all (Inr x # ps) =
     (case promise_all ps of Inl e \<Rightarrow> Inl e | Inr xs \<Rightarrow> Inr (x # xs))"

text \<open>
  Lines 300 to 311: the error thrown at the end of the tick, if any. The message is
  \<open>Some jobs failed for cron=<cron>: <failed>/<total> (unexpected failures=<n>)\<close>.
\<close>

definition finalize :: "jsstring \<Rightarrow> JobResult list \<Rightarrow> thrown option" where
  "finalize cron results =
     (let anyFailed = list_ex (\<lambda>r. \<not> ok r) results in
      if anyFailed then
        let unexpectedFailed =
              length (filter (\<lambda>r. shouldAlert (Some r)) (filter (\<lambda>r. \<not> ok r) results))
        in Some (ErrorObject
                   (js ''Some jobs failed for cron='' @ cron @ js '': ''
                    @ show_nat (length (filter (\<lambda>r. \<not> ok r) results)) @ js ''/''
                    @ show_nat (length results)
                    @ js '' (unexpected failures='' @ show_nat unexpectedFailed @ js '')''))
      else None)"

text \<open>
  How a tick ends: the handler returned without handing work to \<open>ctx.waitUntil\<close>, or
  the promise it handed over was fulfilled, or that promise was rejected.
\<close>

datatype tick_outcome = NoWork | WorkFulfilled | WorkRejected thrown

record 'w tick =
  outcome :: tick_outcome
  events :: "event list"
  world_after :: 'w

text \<open>
  The asynchronous function handed to \<open>ctx.waitUntil\<close> (lines 267 to 312). Calling
  \<open>map\<close> on a value that has none throws a \<open>TypeError\<close> (with the message of V8, the
  engine of the platform), which rejects the promise: for \<open>workerJobs\<close> before any job
  is started, for \<open>webJobs\<close> after the worker jobs were started. The second case needs a
  key that is an own entry of the worker table and not of the web table; the two tables
  have the same keys.
\<close>

definition tick_body ::
  "'w runtime \<Rightarrow> jsstring \<Rightarrow> Env \<Rightarrow> js_property \<Rightarrow> js_property \<Rightarrow> 'w \<Rightarrow> 'w tick" where
  "tick_body rt cron env workerJobs webJobs w0 =
     (case workerJobs of
        Inherited n \<Rightarrow>
          \<lparr>outcome = WorkRejected (ErrorObject (js ''workerJobs.map is not a function'')),
           events = [], world_after = w0\<rparr>
      | OwnJobs wl \<Rightarrow>
          (case webJobs of
             Inherited n \<Rightarrow>
               (case run_jobs rt env (map (Pair worker) wl) w0 of
                  (started, tr1, w1) \<Rightarrow>
                    \<lparr>outcome = WorkRejected (ErrorObject (js ''webJobs.map is not a function'')),
                     events = tr1, world_after = w1\<rparr>)
           | OwnJobs bl \<Rightarrow>
               (case run_jobs rt env (map (Pair worker) wl @ map (Pair web) bl) w0 of
                  (allJobs, tr1, w1) \<Rightarrow>
                    (case promise_all allJobs of
                       Inl e \<Rightarrow> \<lparr>outcome = WorkRejected e, events = tr1, world_after = w1\<rparr>
                     | Inr results \<Rightarrow>
                         (case send_alerts rt cron env results w1 of
                            (tr2, w2) \<Rightarrow>
                              \<lparr>outcome =
                                 (case finalize cron results of
                                    Some e \<Rightarrow> WorkRejected e
                                  | None \<Rightarrow> WorkFulfilled),
                               events = tr1 @ tr2, world_after = w2\<rparr>)))))"

text \<open>Lines 259 and 260: the diagnostic for an expression without jobs. The quote around
  the cron expression is the code unit \<open>0x22\<close>.\<close>

definition no_jobs_mapped :: "'w runtime \<Rightarrow> jsstring \<Rightarrow> 'w \<Rightarrow> 'w tick" where
  "no_jobs_mapped rt cron w0 =
     (case nowISO rt w0 of
        (ts, w1) \<Rightarrow>
          \<lparr>outcome = NoWork,
           events = [ConsoleError (js ''['' @ ts @ js ''] no jobs mapped for cron=''
                                   @ [0x22] @ cron @ [0x22])],
           world_after = w1\<rparr>)"

text \<open>
  \<open>scheduled\<close> (lines 249 to 314), on the cron expression of the controller. The test
  \<open>!workerJobs || workerJobs.length === 0\<close> holds when the lookup finds nothing or
  finds a value whose \<open>length\<close> is 0; \<open>WEB_CRON_TO_JOBS[ev.cron] || []\<close> is the empty
  array when the lookup finds nothing.
\<close>

definition scheduled :: "'w runtime \<Rightarrow> jsstring \<Rightarrow> Env \<Rightarrow> 'w \<Rightarrow> 'w tick" where
  "scheduled rt cron env w0 =
     (if (case ENABLED env of None \<Rightarrow> js ''false'' | Some v \<Rightarrow> v) \<noteq> js ''true'' then
        (case nowISO rt w0 of
           (ts, w1) \<Rightarrow>
             \<lparr>outcome = NoWork,
              events = [ConsoleLog (js ''['' @ ts @ js ''] [disabled] skipping cron='' @ cron)],
              world_after = w1\<rparr>)
      else
        (case get_property WORKER_CRON_TO_JOBS cron of
           None \<Rightarrow> no_jobs_mapped rt cron w0
         | Some workerJobs \<Rightarrow>
             if property_length workerJobs = Some 0 then no_jobs_mapped rt cron w0
             else
               let webJobs = (case get_property WEB_CRON_TO_JOBS cron of
                                None \<Rightarrow> OwnJobs []
                              | Some p \<Rightarrow> p)
               in tick_body rt cron env workerJobs webJobs w0))"

text \<open>
  \<open>fetch\<close> (lines 227 to 244), the HTTP handler. \<open>new URL(req.url).pathname\<close> is the
  platform's URL parser, a parameter here. The handler sends and logs nothing.
\<close>

record incoming_request =
  in_url :: jsstring
  in_method :: jsstring

record outgoing_response =
  out_status :: nat
  out_body :: jsstring

definition fetch :: "(jsstring \<Rightarrow> jsstring) \<Rightarrow> incoming_request \<Rightarrow> outgoing_response \<times> event list" where
  "fetch pathname req =
     (if pathname (in_url req) = js ''/'' \<and> in_method req = js ''GET''
      then (\<lparr>out_status = 200, out_body = js ''ok''\<rparr>, [])
      else (\<lparr>out_status = 404, out_body = js ''not found''\<rparr>, []))"

section \<open>Observations\<close>

text \<open>
  Names for what the statements below talk about. For one call of \<open>runJob\<close>:
  \<open>fetch_answer\<close> is what the platform answers to the request of the job (sent after
  the first reading of the clock), \<open>elapsed\<close> is the duration the call measures (the
  clock after the answer minus the clock at the start), \<open>response_text\<close> is the body it
  reads (empty when \<open>text()\<close> fails), and \<open>base_of\<close> is the base URL of the platform. An
  event is \<open>sent\<close> when it is a request. \<open>due_jobs\<close> is the list a schedule table holds for
  an expression, empty when it holds none, and \<open>tagged_jobs\<close> pairs the due jobs of both
  tables with their platforms, worker first.
\<close>

definition fetch_answer :: "'w runtime \<Rightarrow> Platform \<Rightarrow> JobKey \<Rightarrow> Env \<Rightarrow> 'w \<Rightarrow> fetch_outcome" where
  "fetch_answer rt platform jobKey env w0 =
     fst (rt_fetch rt (job_request platform jobKey env) (snd (rt_now rt w0)))"

definition elapsed :: "'w runtime \<Rightarrow> Platform \<Rightarrow> JobKey \<Rightarrow> Env \<Rightarrow> 'w \<Rightarrow> int" where
  "elapsed rt platform jobKey env w0 =
     fst (rt_now rt (snd (rt_fetch rt (job_request platform jobKey env) (snd (rt_now rt w0)))))
     - fst (rt_now rt w0)"

definition response_text :: "response \<Rightarrow> jsstring" where
  "response_text res = (case res_text res of None \<Rightarrow> [] | Some b \<Rightarrow> b)"

definition base_of :: "Platform \<Rightarrow> Env \<Rightarrow> jsstring" where
  "base_of platform env = (case platform of worker \<Rightarrow> BASE_URL env | web \<Rightarrow> WEB_URL env)"

definition sent :: "event \<Rightarrow> bool" where
  "sent e = (is_JobFetch e \<or> is_SlackFetch e)"

definition due_jobs :: "(jsstring \<times> JobKey list) list \<Rightarrow> jsstring \<Rightarrow> JobKey list" where
  "due_jobs table cron = (case map_of table cron of None \<Rightarrow> [] | Some l \<Rightarrow> l)"

definition tagged_jobs :: "jsstring \<Rightarrow> (Platform \<times> JobKey) list" where
  "tagged_jobs cron =
     map (Pair worker) (due_jobs WORKER_CRON_TO_JOBS cron)
     @ map (Pair web) (due_jobs WEB_CRON_TO_JOBS cron)"

text \<open>
  The webhook a tick posts to, empty when none is set, and the request of the alert for a
  failed result with a given timestamp.
\<close>

definition webhook_of :: "Env \<Rightarrow> jsstring" where
  "webhook_of env = (case SLACK_WEBHOOK_URL env of None \<Rightarrow> [] | Some h \<Rightarrow> trim h)"

definition alert_request :: "jsstring \<Rightarrow> jsstring \<Rightarrow> JobResult \<Rightarrow> jsstring \<Rightarrow> request" where
  "alert_request webhook cron r ts =
     \<lparr>req_url = webhook, req_method = js ''POST'',
      req_headers = [(js ''Content-Type'', js ''application/json'')],
      req_body = Some \<lparr>payload_text =
        slackTextForFailure
          \<lparr>opt_cron = cron, opt_job = job r, opt_url = url r, opt_status = status r,
           opt_ms = ms r, opt_baseUrl = baseUrl r, opt_timestampISO = ts,
           opt_body = body r\<rparr>\<rparr>\<rparr>"

text \<open>
  An expression \<open>hits_prototype\<close> when it is the name of a member inherited from
  \<open>Object.prototype\<close> whose \<open>length\<close> is not 0.
\<close>

definition hits_prototype :: "jsstring \<Rightarrow> bool" where
  "hits_prototype cron =
     (case map_of Object_prototype cron of None \<Rightarrow> False | Some n \<Rightarrow> n \<noteq> Some 0)"

text \<open>
  The results of the jobs of a tick: the values that \<open>Promise.all\<close> collects, for the due
  jobs of both tables.
\<close>

definition collected :: "(thrown + 'a) list \<Rightarrow> 'a list" where
  "collected rs = concat (map (\<lambda>x. case x of Inl e \<Rightarrow> [] | Inr r \<Rightarrow> [r]) rs)"

definition job_results :: "'w runtime \<Rightarrow> jsstring \<Rightarrow> Env \<Rightarrow> 'w \<Rightarrow> JobResult list" where
  "job_results rt cron env w0 = collected (fst (run_jobs rt env (tagged_jobs cron) w0))"

text \<open>
  A small platform and environment for concrete runs: every request gets the same answer,
  the clock stands still, and every timestamp prints as \<open>T\<close>.
\<close>

definition demo_runtime :: "fetch_outcome \<Rightarrow> unit runtime" where
  "demo_runtime answer =
     \<lparr>rt_fetch = (\<lambda>req w. (answer, w)), rt_now = (\<lambda>w. (0, w)),
      rt_toISOString = (\<lambda>t. js ''T'')\<rparr>"

definition demo_env :: Env where
  "demo_env =
     \<lparr>BASE_URL = js ''https://daichronicles.io/'', WEB_URL = js ''https://web.example//'',
      INTERNAL_API_KEY = js ''secret'', ENABLED = Some (js ''true''),
      SLACK_WEBHOOK_URL = Some (js ''https://hooks.example/T'')\<rparr>"

definition long_body_response :: response where
  "long_body_response =
     \<lparr>res_ok = False, res_status = 500, res_text = Some (replicate 2000 0x61)\<rparr>"

definition unavailable :: response where
  "unavailable = \<lparr>res_ok = False, res_status = 503, res_text = Some (js ''busy'')\<rparr>"

definition server_error :: response where
  "server_error = \<lparr>res_ok = False, res_status = 500, res_text = Some (js ''boom'')\<rparr>"

definition blank_webhook :: jsstring where
  "blank_webhook = [0x20, 0x9, 0xA, 0x3000]"

section \<open>Lemmas\<close>

subsection \<open>URLs\<close>

lemma list_all_slash_dropWhile:
  "list_all (\<lambda>d. d = slash) cs \<Longrightarrow> dropWhile (\<lambda>d. d = slash) (rev cs) = []"
  by (simp add: list_all_iff)

lemma strip_trailing_slashes_rev:
  "strip_trailing_slashes s = rev (dropWhile (\<lambda>c. c = slash) (rev s))"
proof (induction s)
  case Nil
  show ?case by simp
next
  case (Cons c cs)
  show ?case
  proof (cases "list_all (\<lambda>d. d = slash) cs")
    case True
    then have "dropWhile (\<lambda>d. d = slash) (rev cs) = []"
      by (rule list_all_slash_dropWhile)
    with True Cons show ?thesis
      by (simp add: dropWhile_append)
  next
    case False
    then obtain d where "d \<in> set cs" "d \<noteq> slash"
      by (auto simp: list_all_iff)
    then have "dropWhile (\<lambda>d. d = slash) (rev cs) \<noteq> []"
      by (auto simp: dropWhile_eq_Nil_conv)
    with False Cons show ?thesis
      by (simp add: dropWhile_append)
  qed
qed

lemma fullUrl_eq:
  "fullUrl platform env ep =
     (strip_trailing_slashes (base_of platform env) @ path ep, http_method ep, base_of platform env)"
  by (cases platform) (simp_all add: fullUrl_def base_of_def Let_def)

lemma req_url_job_request:
  "req_url (job_request platform jobKey env) =
     strip_trailing_slashes (base_of platform env) @ path (JOB_ENDPOINT jobKey)"
  by (simp add: job_request_def fullUrl_eq)

lemma internal_path_iff:
  "startsWith (path (JOB_ENDPOINT jobKey)) (js ''/api/internal/'') = (jobKey \<noteq> healthz)"
  by (cases jobKey) (simp_all add: startsWith_def js_def)

subsection \<open>One job\<close>

lemma runJob_value:
  "fst (runJob rt platform jobKey env w0) =
     Inr (case fetch_answer rt platform jobKey env w0 of
            Rejected e \<Rightarrow>
              JobResultErr jobKey None (elapsed rt platform jobKey env w0)
                (req_url (job_request platform jobKey env)) (base_of platform env)
                (message_of e) None
          | Resolved res \<Rightarrow>
              if res_ok res then
                JobResultOk jobKey (res_status res) (elapsed rt platform jobKey env w0)
                  (req_url (job_request platform jobKey env)) (base_of platform env)
              else
                JobResultErr jobKey (Some (res_status res)) (elapsed rt platform jobKey env w0)
                  (req_url (job_request platform jobKey env)) (base_of platform env)
                  (js ''HTTP '' @ show_nat (res_status res))
                  (Some (take 1500 (response_text res))))"
  unfolding runJob_def runJob_try_def fetch_answer_def elapsed_def response_text_def
    req_url_job_request fullUrl_eq nowISO_def Let_def
  by (simp split: prod.splits fetch_outcome.splits sum.splits)

lemma runJob_events:
  "\<exists>line. fst (snd (runJob rt platform jobKey env w0)) =
      [JobFetch (job_request platform jobKey env), line] \<and> \<not> is_JobFetch line \<and> \<not> is_SlackFetch line"
  unfolding runJob_def runJob_try_def nowISO_def Let_def
  by (simp split: prod.splits fetch_outcome.splits sum.splits)

lemma runJob_Inr: "\<exists>r. fst (runJob rt platform jobKey env w0) = Inr r"
  by (simp add: runJob_value)

lemma runJob_job: "\<exists>r. fst (runJob rt platform jobKey env w0) = Inr r \<and> job r = jobKey"
  by (simp add: runJob_value split: fetch_outcome.splits)

lemma runJob_body:
  "fst (runJob rt p j env w) = Inr r \<Longrightarrow>
     body r = (case fetch_answer rt p j env w of
                 Rejected e \<Rightarrow> None
               | Resolved res \<Rightarrow>
                   if res_ok res then None else Some (take 1500 (response_text res)))"
  by (auto simp add: runJob_value split: fetch_outcome.splits)

lemma job_request_webhook:
  "job_request platform jobKey (env\<lparr>SLACK_WEBHOOK_URL := hook\<rparr>) = job_request platform jobKey env"
  by (simp add: job_request_def fullUrl_def)

lemma runJob_webhook:
  "runJob rt platform jobKey (env\<lparr>SLACK_WEBHOOK_URL := hook\<rparr>) w = runJob rt platform jobKey env w"
  by (simp add: runJob_def runJob_try_def job_request_webhook fullUrl_def)

subsection \<open>All jobs of a tick\<close>

lemma collected_Inr: "collected (map Inr xs) = xs"
  by (induction xs) (simp_all add: collected_def)

lemma collected_Cons_Inr: "collected (Inr x # rs) = x # collected rs"
  by (simp add: collected_def)

lemma run_jobs_Cons_values:
  "fst (run_jobs rt env ((p, j) # pjs) w) =
     fst (runJob rt p j env w) # fst (run_jobs rt env pjs (snd (snd (runJob rt p j env w))))"
  by (simp split: prod.splits)

lemma run_jobs_Cons_events:
  "fst (snd (run_jobs rt env ((p, j) # pjs) w)) =
     fst (snd (runJob rt p j env w))
     @ fst (snd (run_jobs rt env pjs (snd (snd (runJob rt p j env w)))))"
  by (simp split: prod.splits)

lemma run_jobs_values:
  "\<exists>results. fst (run_jobs rt env pjs w) = map Inr results \<and> length results = length pjs"
proof (induction pjs arbitrary: w)
  case Nil
  show ?case by simp
next
  case (Cons pj pjs)
  obtain p j where pj: "pj = (p, j)" by (cases pj)
  obtain x where x: "fst (runJob rt p j env w) = Inr x"
    using runJob_Inr [of rt p j env w] by auto
  obtain results where rest:
      "fst (run_jobs rt env pjs (snd (snd (runJob rt p j env w)))) = map Inr results"
    and len: "length results = length pjs"
    using Cons.IH [of "snd (snd (runJob rt p j env w))"] by auto
  have "fst (run_jobs rt env (pj # pjs) w) = map Inr (x # results)"
    unfolding pj run_jobs_Cons_values x rest by simp
  moreover have "length (x # results) = length (pj # pjs)"
    using len by simp
  ultimately show ?case by blast
qed

lemma promise_all_Inr: "promise_all (map Inr xs) = Inr xs"
  by (induction xs) simp_all

lemma run_jobs_job_fetches:
  "filter is_JobFetch (fst (snd (run_jobs rt env pjs w))) =
     map (\<lambda>(p, j). JobFetch (job_request p j env)) pjs"
proof (induction pjs arbitrary: w)
  case Nil
  show ?case by simp
next
  case (Cons pj pjs)
  obtain p j where pj: "pj = (p, j)" by (cases pj)
  obtain line where tr: "fst (snd (runJob rt p j env w)) = [JobFetch (job_request p j env), line]"
    and line: "\<not> is_JobFetch line"
    using runJob_events [of rt p j env w] by auto
  show ?case
    unfolding pj run_jobs_Cons_events tr using line Cons.IH by simp
qed

lemma run_jobs_no_slack:
  "filter is_SlackFetch (fst (snd (run_jobs rt env pjs w))) = []"
proof (induction pjs arbitrary: w)
  case Nil
  show ?case by simp
next
  case (Cons pj pjs)
  obtain p j where pj: "pj = (p, j)" by (cases pj)
  obtain line where tr: "fst (snd (runJob rt p j env w)) = [JobFetch (job_request p j env), line]"
    and line: "\<not> is_SlackFetch line"
    using runJob_events [of rt p j env w] by auto
  show ?case
    unfolding pj run_jobs_Cons_events tr using line Cons.IH by simp
qed

lemma run_jobs_jobs:
  "map job (collected (fst (run_jobs rt env pjs w))) = map snd pjs"
proof (induction pjs arbitrary: w)
  case Nil
  show ?case by (simp add: collected_def)
next
  case (Cons pj pjs)
  obtain p j where pj: "pj = (p, j)" by (cases pj)
  obtain x where x: "fst (runJob rt p j env w) = Inr x" and jx: "job x = j"
    using runJob_job [of rt p j env w] by auto
  show ?case
    unfolding pj run_jobs_Cons_values x collected_Cons_Inr
    using jx Cons.IH [of "snd (snd (runJob rt p j env w))"] by simp
qed

lemma run_jobs_results_from_runJob:
  "r \<in> set (collected (fst (run_jobs rt env pjs w))) \<Longrightarrow>
     \<exists>p j w'. (p, j) \<in> set pjs \<and> fst (runJob rt p j env w') = Inr r"
proof (induction pjs arbitrary: w)
  case Nil
  then show ?case by (simp add: collected_def)
next
  case (Cons pj pjs)
  obtain p j where pj: "pj = (p, j)" by (cases pj)
  obtain x where x: "fst (runJob rt p j env w) = Inr x"
    using runJob_Inr [of rt p j env w] by auto
  from Cons.prems have "r = x \<or> r \<in> set (collected (fst (run_jobs rt env pjs
      (snd (snd (runJob rt p j env w))))))"
    unfolding pj run_jobs_Cons_values x collected_Cons_Inr by simp
  then show ?case
  proof
    assume "r = x"
    with x pj show ?thesis by auto
  next
    assume "r \<in> set (collected (fst (run_jobs rt env pjs (snd (snd (runJob rt p j env w))))))"
    from Cons.IH [OF this] show ?thesis by auto
  qed
qed

lemma run_jobs_first_event:
  "pjs \<noteq> [] \<Longrightarrow> \<exists>req rest. fst (snd (run_jobs rt env pjs w)) = JobFetch req # rest"
proof (cases pjs)
  case Nil
  assume "pjs \<noteq> []"
  with Nil show ?thesis by simp
next
  case (Cons pj pjs')
  obtain p j where pj: "pj = (p, j)" by (cases pj)
  obtain line where tr: "fst (snd (runJob rt p j env w)) = [JobFetch (job_request p j env), line]"
    using runJob_events [of rt p j env w] by auto
  show ?thesis
    unfolding Cons pj run_jobs_Cons_events tr by simp
qed

lemma run_jobs_webhook:
  "run_jobs rt (env\<lparr>SLACK_WEBHOOK_URL := hook\<rparr>) pjs w = run_jobs rt env pjs w"
proof (induction pjs arbitrary: w)
  case Nil
  show ?case by simp
next
  case (Cons pj pjs)
  obtain p j where pj: "pj = (p, j)" by (cases pj)
  show ?case
    unfolding pj using Cons.IH by (simp add: runJob_webhook)
qed

lemma job_results_webhook:
  "job_results rt cron (env\<lparr>SLACK_WEBHOOK_URL := hook\<rparr>) w0 = job_results rt cron env w0"
  by (simp add: job_results_def run_jobs_webhook)

subsection \<open>Alerts\<close>

lemma postSlack_no_job_fetch:
  "filter is_JobFetch (fst (postSlack rt webhook payload w)) = []"
  unfolding postSlack_def nowISO_def Let_def
  by (simp split: prod.splits fetch_outcome.splits)

lemma post_alerts_no_job_fetch:
  "filter is_JobFetch (fst (post_alerts rt cron webhook rs w)) = []"
proof (induction rs arbitrary: w)
  case Nil
  show ?case by simp
next
  case (Cons r rs)
  show ?case
    using Cons.IH postSlack_no_job_fetch [of rt webhook]
    by (simp split: prod.splits) (metis fst_conv)
qed

lemma send_alerts_no_job_fetch:
  "filter is_JobFetch (fst (send_alerts rt cron env results w)) = []"
  unfolding send_alerts_def
  by (simp add: post_alerts_no_job_fetch split: option.splits)

lemma postSlack_slack_fetch:
  "filter is_SlackFetch (fst (postSlack rt webhook payload w)) =
     [SlackFetch \<lparr>req_url = webhook, req_method = js ''POST'',
                  req_headers = [(js ''Content-Type'', js ''application/json'')],
                  req_body = Some payload\<rparr>]"
  unfolding postSlack_def nowISO_def Let_def
  by (simp split: prod.splits fetch_outcome.splits)

lemma post_alerts_Cons_events:
  "fst (post_alerts rt cron webhook (r # rs) w) =
     fst (postSlack rt webhook
            \<lparr>payload_text =
               slackTextForFailure
                 \<lparr>opt_cron = cron, opt_job = job r, opt_url = url r, opt_status = status r,
                  opt_ms = ms r, opt_baseUrl = baseUrl r,
                  opt_timestampISO = fst (nowISO rt w), opt_body = body r\<rparr>\<rparr>
            (snd (nowISO rt w)))
     @ fst (post_alerts rt cron webhook rs
              (snd (postSlack rt webhook
                 \<lparr>payload_text =
                    slackTextForFailure
                      \<lparr>opt_cron = cron, opt_job = job r, opt_url = url r, opt_status = status r,
                       opt_ms = ms r, opt_baseUrl = baseUrl r,
                       opt_timestampISO = fst (nowISO rt w), opt_body = body r\<rparr>\<rparr>
                 (snd (nowISO rt w)))))"
  by (simp split: prod.splits)

lemma post_alerts_slack_fetches:
  "\<exists>tss. length tss = length rs
     \<and> filter is_SlackFetch (fst (post_alerts rt cron webhook rs w)) =
         map2 (\<lambda>r ts. SlackFetch (alert_request webhook cron r ts)) rs tss"
proof (induction rs arbitrary: w)
  case Nil
  show ?case by simp
next
  case (Cons r rs)
  let ?ts = "fst (nowISO rt w)"
  let ?payload = "\<lparr>payload_text =
               slackTextForFailure
                 \<lparr>opt_cron = cron, opt_job = job r, opt_url = url r, opt_status = status r,
                  opt_ms = ms r, opt_baseUrl = baseUrl r,
                  opt_timestampISO = ?ts, opt_body = body r\<rparr>\<rparr>"
  let ?w = "snd (postSlack rt webhook ?payload (snd (nowISO rt w)))"
  obtain tss where len: "length tss = length rs"
    and rest: "filter is_SlackFetch (fst (post_alerts rt cron webhook rs ?w)) =
         map2 (\<lambda>r ts. SlackFetch (alert_request webhook cron r ts)) rs tss"
    using Cons.IH [of ?w] by auto
  have "filter is_SlackFetch (fst (post_alerts rt cron webhook (r # rs) w)) =
      map2 (\<lambda>r ts. SlackFetch (alert_request webhook cron r ts)) (r # rs) (?ts # tss)"
    unfolding post_alerts_Cons_events
    by (simp add: postSlack_slack_fetch rest alert_request_def)
  moreover have "length (?ts # tss) = length (r # rs)"
    using len by simp
  ultimately show ?case by blast
qed

lemma send_alerts_slack_fetches:
  "\<exists>tss. length tss = length (filter (\<lambda>r. \<not> ok r \<and> shouldAlert (Some r)) results)
     \<and> filter is_SlackFetch (fst (send_alerts rt cron env results w)) =
         (if webhook_of env = [] then []
          else map2 (\<lambda>r ts. SlackFetch (alert_request (webhook_of env) cron r ts))
                 (filter (\<lambda>r. \<not> ok r \<and> shouldAlert (Some r)) results) tss)"
proof -
  let ?A = "filter (\<lambda>r. \<not> ok r \<and> shouldAlert (Some r)) results"
  have A: "filter (\<lambda>r. shouldAlert (Some r)) (filter (\<lambda>r. \<not> ok r) results) = ?A"
    by (simp only: filter_filter)
  show ?thesis
  proof (cases "webhook_of env = []")
    case True
    then have "fst (send_alerts rt cron env results w) = []"
      by (simp add: send_alerts_def webhook_of_def split: option.splits)
    with True show ?thesis
      by (intro exI [of _ "replicate (length ?A) []"]) simp
  next
    case False
    then have "send_alerts rt cron env results w =
        post_alerts rt cron (webhook_of env) ?A w"
      unfolding A [symmetric]
      by (simp add: send_alerts_def webhook_of_def split: option.splits)
    with False post_alerts_slack_fetches [of ?A rt cron "webhook_of env" w]
    show ?thesis by auto
  qed
qed

lemma slackTextForFailure_body:
  "\<exists>pre. slackTextForFailure opts =
     pre @ (case opt_body opts of
              None \<Rightarrow> []
            | Some b \<Rightarrow> if b = [] then [] else b @ newline @ fence)"
proof -
  let ?head = "js '':rotating_light: *Cron job failed* ('' @ opt_cron opts @ js '')'' @ newline
         @ bullet @ js '' *Job*: '' @ job_name (opt_job opts) @ newline
         @ bullet @ js '' *Status*: ''
         @ (case opt_status opts of Some s \<Rightarrow> show_nat s | None \<Rightarrow> js ''network error'') @ newline
         @ bullet @ js '' *Duration*: '' @ show_int (opt_ms opts) @ js ''ms'' @ newline
         @ bullet @ js '' *When*: '' @ opt_timestampISO opts @ newline
         @ bullet @ js '' *URL*: '' @ opt_url opts @ newline
         @ bullet @ js '' *BASE_URL*: '' @ opt_baseUrl opts"
  let ?intro = "newline @ bullet @ js '' *Body (trimmed)*:'' @ newline @ fence @ newline"
  show ?thesis
  proof (cases "opt_body opts")
    case None
    then have "slackTextForFailure opts = ?head @ []"
      unfolding slackTextForFailure_def Let_def by simp
    with None show ?thesis by (intro exI [of _ ?head]) simp
  next
    case (Some b)
    show ?thesis
    proof (cases "b = []")
      case True
      with Some have "slackTextForFailure opts = ?head @ []"
        unfolding slackTextForFailure_def Let_def by simp
      with Some True show ?thesis by (intro exI [of _ ?head]) simp
    next
      case False
      with Some have "slackTextForFailure opts = (?head @ ?intro) @ b @ newline @ fence"
        unfolding slackTextForFailure_def Let_def by simp
      with Some False show ?thesis by (intro exI [of _ "?head @ ?intro"]) simp
    qed
  qed
qed

lemma runJob_body_truncated:
  assumes "fetch_answer rt platform jobKey env w0 = Resolved res" and "\<not> res_ok res"
  shows "\<exists>r pre pre'. fst (runJob rt platform jobKey env w0) = Inr r
           \<and> body r = Some (take 1500 (response_text res))
           \<and> length (take 1500 (response_text res)) = min 1500 (length (response_text res))
           \<and> (if 1500 < length (response_text res)
               then length (take 1500 (response_text res)) = 1500
               else take 1500 (response_text res) = response_text res)
           \<and> fst (snd (runJob rt platform jobKey env w0)) =
               [JobFetch (job_request platform jobKey env),
                ConsoleError (pre @ js '' body='' @ take 1500 (response_text res))]
           \<and> slackTextForFailure
                \<lparr>opt_cron = cron, opt_job = job r, opt_url = url r, opt_status = status r,
                 opt_ms = ms r, opt_baseUrl = baseUrl r, opt_timestampISO = ts,
                 opt_body = body r\<rparr> =
               pre' @ (if take 1500 (response_text res) = [] then []
                       else take 1500 (response_text res) @ newline @ fence)"
proof -
  let ?req = "job_request platform jobKey env"
  let ?u = "strip_trailing_slashes (base_of platform env) @ path (JOB_ENDPOINT jobKey)"
  let ?r = "JobResultErr jobKey (Some (res_status res))
              (elapsed rt platform jobKey env w0) ?u (base_of platform env)
              (js ''HTTP '' @ show_nat (res_status res)) (Some (take 1500 (response_text res)))"
  obtain started w1 where n0: "rt_now rt w0 = (started, w1)"
    by (cases "rt_now rt w0")
  obtain w2 where f: "rt_fetch rt ?req w1 = (Resolved res, w2)"
    using assms(1) n0 by (cases "rt_fetch rt ?req w1") (simp add: fetch_answer_def)
  obtain t1 w3 where n1: "rt_now rt w2 = (t1, w3)"
    by (cases "rt_now rt w2")
  obtain t2 w4 where n2: "rt_now rt w3 = (t2, w4)"
    by (cases "rt_now rt w3")
  let ?pre = "js ''['' @ rt_toISOString rt t2 @ js ''] job='' @ job_name jobKey
              @ js '' status='' @ show_nat (res_status res)
              @ js '' durMs='' @ show_int (t1 - started) @ js '' url='' @ ?u"
  have val: "fst (runJob rt platform jobKey env w0) = Inr ?r"
    using assms by (simp add: runJob_value req_url_job_request)
  have log: "fst (snd (runJob rt platform jobKey env w0)) =
       [JobFetch ?req, ConsoleError (?pre @ js '' body='' @ take 1500 (response_text res))]"
    using assms(2)
    by (simp add: runJob_def runJob_try_def nowISO_def fullUrl_eq Let_def response_text_def
        n0 f n1 n2)
  obtain pre' where alert: "slackTextForFailure
                \<lparr>opt_cron = cron, opt_job = job ?r, opt_url = url ?r, opt_status = status ?r,
                 opt_ms = ms ?r, opt_baseUrl = baseUrl ?r, opt_timestampISO = ts,
                 opt_body = body ?r\<rparr> =
               pre' @ (if take 1500 (response_text res) = [] then []
                       else take 1500 (response_text res) @ newline @ fence)"
    using slackTextForFailure_body [of "\<lparr>opt_cron = cron, opt_job = job ?r, opt_url = url ?r,
        opt_status = status ?r, opt_ms = ms ?r, opt_baseUrl = baseUrl ?r, opt_timestampISO = ts,
        opt_body = body ?r\<rparr>"]
    by auto
  have len: "length (take 1500 (response_text res)) = min 1500 (length (response_text res))"
    by simp
  have cut: "if 1500 < length (response_text res)
               then length (take 1500 (response_text res)) = 1500
               else take 1500 (response_text res) = response_text res"
    by simp
  from val log alert len cut show ?thesis
    by (intro exI [of _ ?r] exI [of _ ?pre] exI [of _ pre']) simp
qed

lemma dropWhile_all: "list_all P xs \<Longrightarrow> dropWhile P xs = []"
  by (simp add: list_all_iff)

lemma trim_whitespace_only: "list_all is_js_whitespace u \<Longrightarrow> trim u = []"
  by (simp add: trim_def dropWhile_all)

lemma send_alerts_without_webhook:
  assumes "case SLACK_WEBHOOK_URL env of None \<Rightarrow> True | Some u \<Rightarrow> list_all is_js_whitespace u"
  shows "send_alerts rt cron env results w = ([], w)"
  using assms
  by (cases "SLACK_WEBHOOK_URL env") (simp_all add: send_alerts_def trim_whitespace_only)

subsection \<open>The scheduled handler\<close>

lemma js_false_not_true: "js ''false'' \<noteq> js ''true''"
  by (simp add: js_def)

lemma flag_iff:
  "((case ENABLED env of None \<Rightarrow> js ''false'' | Some v \<Rightarrow> v) = js ''true'')
     = (ENABLED env = Some (js ''true''))"
  by (cases "ENABLED env") (simp_all add: js_false_not_true)

lemma scheduled_disabled:
  assumes "ENABLED env \<noteq> Some (js ''true'')"
  shows "scheduled rt cron env w0 =
     \<lparr>outcome = NoWork,
      events = [ConsoleLog (js ''['' @ fst (nowISO rt w0) @ js ''] [disabled] skipping cron='' @ cron)],
      world_after = snd (nowISO rt w0)\<rparr>"
  using assms flag_iff [of env]
  by (simp add: scheduled_def split: prod.splits)

lemma hits_prototype_not_own:
  "hits_prototype cron \<Longrightarrow>
     map_of WORKER_CRON_TO_JOBS cron = None \<and> map_of WEB_CRON_TO_JOBS cron = None"
  by (auto simp add: hits_prototype_def Object_prototype_def WORKER_CRON_TO_JOBS_def
      WEB_CRON_TO_JOBS_def js_def split: if_splits)

lemma hits_prototype_not_due:
  "hits_prototype cron \<Longrightarrow>
     due_jobs WORKER_CRON_TO_JOBS cron = [] \<and> due_jobs WEB_CRON_TO_JOBS cron = []"
  using hits_prototype_not_own [of cron] by (simp add: due_jobs_def)

lemma get_property_worker_due:
  "due_jobs WORKER_CRON_TO_JOBS cron \<noteq> [] \<Longrightarrow>
     get_property WORKER_CRON_TO_JOBS cron = Some (OwnJobs (due_jobs WORKER_CRON_TO_JOBS cron))"
  by (cases "map_of WORKER_CRON_TO_JOBS cron") (simp_all add: due_jobs_def get_property_def)

lemma same_keys:
  "(map_of WORKER_CRON_TO_JOBS cron = None) = (map_of WEB_CRON_TO_JOBS cron = None)"
  by (simp add: WORKER_CRON_TO_JOBS_def WEB_CRON_TO_JOBS_def)

lemma get_property_web_due:
  assumes "due_jobs WORKER_CRON_TO_JOBS cron \<noteq> []"
  shows "(case get_property WEB_CRON_TO_JOBS cron of None \<Rightarrow> OwnJobs [] | Some p \<Rightarrow> p) =
     OwnJobs (due_jobs WEB_CRON_TO_JOBS cron)"
proof -
  have "map_of WORKER_CRON_TO_JOBS cron \<noteq> None"
    using assms by (cases "map_of WORKER_CRON_TO_JOBS cron") (simp_all add: due_jobs_def)
  then have "map_of WEB_CRON_TO_JOBS cron \<noteq> None"
    using same_keys [of cron] by simp
  then show ?thesis
    by (auto simp add: due_jobs_def get_property_def)
qed

lemma no_jobs_mapped_eq:
  "no_jobs_mapped rt cron w0 =
     \<lparr>outcome = NoWork,
      events = [ConsoleError (js ''['' @ fst (nowISO rt w0) @ js ''] no jobs mapped for cron=''
                              @ [0x22] @ cron @ [0x22])],
      world_after = snd (nowISO rt w0)\<rparr>"
  by (simp add: no_jobs_mapped_def split: prod.splits)

lemma scheduled_hits_prototype:
  assumes "ENABLED env = Some (js ''true'')" and "hits_prototype cron"
  shows "scheduled rt cron env w0 =
     \<lparr>outcome = WorkRejected (ErrorObject (js ''workerJobs.map is not a function'')),
      events = [], world_after = w0\<rparr>"
proof -
  have "map_of WORKER_CRON_TO_JOBS cron = None"
    using assms(2) hits_prototype_not_own [of cron] by simp
  moreover obtain n where "map_of Object_prototype cron = Some n" and "n \<noteq> Some 0"
    using assms(2) by (auto simp add: hits_prototype_def split: option.splits)
  ultimately have "get_property WORKER_CRON_TO_JOBS cron = Some (Inherited n)"
    by (simp add: get_property_def)
  with \<open>n \<noteq> Some 0\<close> assms(1) flag_iff [of env] show ?thesis
    by (simp add: scheduled_def tick_body_def)
qed

lemma scheduled_no_jobs:
  assumes "ENABLED env = Some (js ''true'')" and "due_jobs WORKER_CRON_TO_JOBS cron = []"
    and "\<not> hits_prototype cron"
  shows "scheduled rt cron env w0 =
     \<lparr>outcome = NoWork,
      events = [ConsoleError (js ''['' @ fst (nowISO rt w0) @ js ''] no jobs mapped for cron=''
                              @ [0x22] @ cron @ [0x22])],
      world_after = snd (nowISO rt w0)\<rparr>"
proof -
  have "get_property WORKER_CRON_TO_JOBS cron = None
      \<or> (\<exists>p. get_property WORKER_CRON_TO_JOBS cron = Some p \<and> property_length p = Some 0)"
    using assms(2,3)
    by (auto simp add: get_property_def due_jobs_def hits_prototype_def split: option.splits)
  with assms(1) flag_iff [of env] show ?thesis
    by (auto simp add: scheduled_def no_jobs_mapped_eq)
qed

lemma scheduled_undispatched:
  assumes "ENABLED env = Some (js ''true'')" and "due_jobs WORKER_CRON_TO_JOBS cron = []"
  shows "scheduled rt cron env w0 =
     (if hits_prototype cron
      then \<lparr>outcome = WorkRejected (ErrorObject (js ''workerJobs.map is not a function'')),
            events = [], world_after = w0\<rparr>
      else \<lparr>outcome = NoWork,
            events = [ConsoleError (js ''['' @ fst (nowISO rt w0)
                                    @ js ''] no jobs mapped for cron='' @ [0x22] @ cron @ [0x22])],
            world_after = snd (nowISO rt w0)\<rparr>)"
  using assms by (simp add: scheduled_hits_prototype scheduled_no_jobs)

lemma scheduled_dispatch:
  assumes "ENABLED env = Some (js ''true'')" and "due_jobs WORKER_CRON_TO_JOBS cron \<noteq> []"
  shows "scheduled rt cron env w0 =
     tick_body rt cron env (OwnJobs (due_jobs WORKER_CRON_TO_JOBS cron))
       (OwnJobs (due_jobs WEB_CRON_TO_JOBS cron)) w0"
  using assms flag_iff [of env]
  by (simp add: scheduled_def get_property_worker_due get_property_web_due)

lemma web_due_needs_worker_due:
  "due_jobs WEB_CRON_TO_JOBS cron \<noteq> [] \<Longrightarrow> due_jobs WORKER_CRON_TO_JOBS cron \<noteq> []"
  by (simp add: due_jobs_def WEB_CRON_TO_JOBS_def WORKER_CRON_TO_JOBS_def split: if_splits)

lemma tick_body_eq:
  "tick_body rt cron env (OwnJobs (due_jobs WORKER_CRON_TO_JOBS cron))
       (OwnJobs (due_jobs WEB_CRON_TO_JOBS cron)) w0 =
     \<lparr>outcome = (case finalize cron (job_results rt cron env w0) of
                   Some e \<Rightarrow> WorkRejected e | None \<Rightarrow> WorkFulfilled),
      events = fst (snd (run_jobs rt env (tagged_jobs cron) w0))
               @ fst (send_alerts rt cron env (job_results rt cron env w0)
                        (snd (snd (run_jobs rt env (tagged_jobs cron) w0)))),
      world_after = snd (send_alerts rt cron env (job_results rt cron env w0)
                        (snd (snd (run_jobs rt env (tagged_jobs cron) w0))))\<rparr>"
proof -
  obtain results where res: "fst (run_jobs rt env (tagged_jobs cron) w0) = map Inr results"
    using run_jobs_values [of rt env "tagged_jobs cron" w0] by auto
  then have jr: "job_results rt cron env w0 = results"
    by (simp add: job_results_def collected_Inr)
  obtain rs tr1 w1 where run: "run_jobs rt env (tagged_jobs cron) w0 = (rs, tr1, w1)"
    by (cases "run_jobs rt env (tagged_jobs cron) w0")
  with res have rs: "rs = map Inr results" by simp
  show ?thesis
    unfolding jr
    using run rs
    by (simp add: tick_body_def tagged_jobs_def [symmetric] promise_all_Inr split: prod.splits)
qed

lemma scheduled_outcome:
  "outcome (scheduled rt cron env w0) =
     (if ENABLED env = Some (js ''true'') \<and> due_jobs WORKER_CRON_TO_JOBS cron \<noteq> []
      then (case finalize cron (job_results rt cron env w0) of
              Some e \<Rightarrow> WorkRejected e | None \<Rightarrow> WorkFulfilled)
      else if ENABLED env = Some (js ''true'') \<and> hits_prototype cron
      then WorkRejected (ErrorObject (js ''workerJobs.map is not a function''))
      else NoWork)"
proof (cases "ENABLED env = Some (js ''true'')")
  case False
  then show ?thesis by (simp add: scheduled_disabled)
next
  case True
  show ?thesis
  proof (cases "due_jobs WORKER_CRON_TO_JOBS cron = []")
    case True
    with \<open>ENABLED env = Some (js ''true'')\<close> show ?thesis by (simp add: scheduled_undispatched)
  next
    case False
    with True show ?thesis by (simp add: scheduled_dispatch tick_body_eq)
  qed
qed

lemma scheduled_job_fetches:
  "filter is_JobFetch (events (scheduled rt cron env w0)) =
     (if ENABLED env = Some (js ''true'') \<and> due_jobs WORKER_CRON_TO_JOBS cron \<noteq> []
      then map (\<lambda>(p, j). JobFetch (job_request p j env)) (tagged_jobs cron)
      else [])"
proof (cases "ENABLED env = Some (js ''true'')")
  case False
  then show ?thesis by (simp add: scheduled_disabled)
next
  case True
  show ?thesis
  proof (cases "due_jobs WORKER_CRON_TO_JOBS cron = []")
    case True
    with \<open>ENABLED env = Some (js ''true'')\<close> show ?thesis by (simp add: scheduled_undispatched)
  next
    case False
    with True show ?thesis
      by (simp add: scheduled_dispatch tick_body_eq run_jobs_job_fetches send_alerts_no_job_fetch)
  qed
qed

lemma scheduled_slack_fetches:
  "\<exists>tss. length tss =
           length (filter (\<lambda>r. \<not> ok r \<and> shouldAlert (Some r)) (job_results rt cron env w0))
     \<and> filter is_SlackFetch (events (scheduled rt cron env w0)) =
         (if ENABLED env = Some (js ''true'') \<and> due_jobs WORKER_CRON_TO_JOBS cron \<noteq> []
             \<and> webhook_of env \<noteq> []
          then map2 (\<lambda>r ts. SlackFetch (alert_request (webhook_of env) cron r ts))
                 (filter (\<lambda>r. \<not> ok r \<and> shouldAlert (Some r)) (job_results rt cron env w0)) tss
          else [])"
proof -
  let ?R = "job_results rt cron env w0"
  let ?A = "filter (\<lambda>r. \<not> ok r \<and> shouldAlert (Some r)) ?R"
  let ?w = "snd (snd (run_jobs rt env (tagged_jobs cron) w0))"
  obtain tss where len: "length tss = length ?A"
    and sent: "filter is_SlackFetch (fst (send_alerts rt cron env ?R ?w)) =
         (if webhook_of env = [] then []
          else map2 (\<lambda>r ts. SlackFetch (alert_request (webhook_of env) cron r ts)) ?A tss)"
    using send_alerts_slack_fetches [of ?R rt cron env ?w] by auto
  have "filter is_SlackFetch (events (scheduled rt cron env w0)) =
         (if ENABLED env = Some (js ''true'') \<and> due_jobs WORKER_CRON_TO_JOBS cron \<noteq> []
             \<and> webhook_of env \<noteq> []
          then map2 (\<lambda>r ts. SlackFetch (alert_request (webhook_of env) cron r ts)) ?A tss
          else [])"
  proof (cases "ENABLED env = Some (js ''true'')")
    case False
    then show ?thesis by (simp add: scheduled_disabled)
  next
    case True
    show ?thesis
    proof (cases "due_jobs WORKER_CRON_TO_JOBS cron = []")
      case True
      with \<open>ENABLED env = Some (js ''true'')\<close> show ?thesis
        by (simp add: scheduled_undispatched)
    next
      case False
      with True show ?thesis
        by (simp add: scheduled_dispatch tick_body_eq run_jobs_no_slack sent)
    qed
  qed
  with len show ?thesis by blast
qed

lemma schedule_resolution_own:
  assumes "ENABLED env = Some (js ''true'')" and "\<not> hits_prototype cron"
  shows "if due_jobs WORKER_CRON_TO_JOBS cron = [] \<and> due_jobs WEB_CRON_TO_JOBS cron = []
         then scheduled rt cron env w0 =
                \<lparr>outcome = NoWork,
                 events = [ConsoleError (js ''['' @ fst (nowISO rt w0)
                                         @ js ''] no jobs mapped for cron=''
                                         @ [0x22] @ cron @ [0x22])],
                 world_after = snd (nowISO rt w0)\<rparr>
         else filter is_JobFetch (events (scheduled rt cron env w0)) =
                map (\<lambda>(p, j). JobFetch (job_request p j env))
                  (map (Pair worker) (due_jobs WORKER_CRON_TO_JOBS cron)
                   @ map (Pair web) (due_jobs WEB_CRON_TO_JOBS cron))
              \<and> map job (job_results rt cron env w0) =
                  due_jobs WORKER_CRON_TO_JOBS cron @ due_jobs WEB_CRON_TO_JOBS cron
              \<and> outcome (scheduled rt cron env w0) \<noteq> NoWork"
proof (cases "due_jobs WORKER_CRON_TO_JOBS cron = []")
  case True
  then have "due_jobs WEB_CRON_TO_JOBS cron = []"
    using web_due_needs_worker_due [of cron] by blast
  with True assms show ?thesis
    by (simp add: scheduled_no_jobs)
next
  case False
  have fetches: "filter is_JobFetch (events (scheduled rt cron env w0)) =
                map (\<lambda>(p, j). JobFetch (job_request p j env))
                  (map (Pair worker) (due_jobs WORKER_CRON_TO_JOBS cron)
                   @ map (Pair web) (due_jobs WEB_CRON_TO_JOBS cron))"
    using assms(1) False by (simp add: scheduled_job_fetches tagged_jobs_def)
  have "map job (job_results rt cron env w0) = map snd (tagged_jobs cron)"
    by (simp add: job_results_def run_jobs_jobs)
  then have jobs: "map job (job_results rt cron env w0) =
                  due_jobs WORKER_CRON_TO_JOBS cron @ due_jobs WEB_CRON_TO_JOBS cron"
    by (simp add: tagged_jobs_def comp_def)
  have out: "outcome (scheduled rt cron env w0) \<noteq> NoWork"
    using assms(1) False by (simp add: scheduled_outcome split: option.splits)
  from False fetches jobs out show ?thesis by simp
qed

lemma finalize_eq:
  "finalize cron results =
     (if filter (\<lambda>r. \<not> ok r) results = [] then None
      else Some (ErrorObject
             (js ''Some jobs failed for cron='' @ cron @ js '': ''
              @ show_nat (length (filter (\<lambda>r. \<not> ok r) results)) @ js ''/''
              @ show_nat (length results) @ js '' (unexpected failures=''
              @ show_nat (length (filter (\<lambda>r. \<not> ok r \<and> shouldAlert (Some r)) results))
              @ js '')'')))"
proof -
  have "list_ex (\<lambda>r. \<not> ok r) results = (filter (\<lambda>r. \<not> ok r) results \<noteq> [])"
    by (simp add: list_ex_iff filter_empty_conv)
  moreover have "filter (\<lambda>r. shouldAlert (Some r)) (filter (\<lambda>r. \<not> ok r) results) =
      filter (\<lambda>r. \<not> ok r \<and> shouldAlert (Some r)) results"
    by (simp add: conj_commute)
  ultimately show ?thesis
    unfolding finalize_def Let_def by simp
qed

subsection \<open>Concrete runs\<close>

lemma demo_nowISO: "nowISO (demo_runtime answer) w = (js ''T'', w)"
  by (simp add: nowISO_def demo_runtime_def)

lemma due_worker_quarter:
  "due_jobs WORKER_CRON_TO_JOBS (js ''*/15 * * * *'') = [shieldClean, recordDacPerformance]"
  by (simp add: due_jobs_def WORKER_CRON_TO_JOBS_def js_def)

lemma due_web_quarter: "due_jobs WEB_CRON_TO_JOBS (js ''*/15 * * * *'') = []"
  by (simp add: due_jobs_def WEB_CRON_TO_JOBS_def js_def)

lemma due_worker_minute:
  "due_jobs WORKER_CRON_TO_JOBS (js ''*/1 * * * *'') = [syncChroniclesUpdates, syncUserStakes, healthz]"
  by (simp add: due_jobs_def WORKER_CRON_TO_JOBS_def js_def)

lemma due_web_minute: "due_jobs WEB_CRON_TO_JOBS (js ''*/1 * * * *'') = [healthz]"
  by (simp add: due_jobs_def WEB_CRON_TO_JOBS_def js_def)

lemma due_worker_unmapped: "due_jobs WORKER_CRON_TO_JOBS (js ''5 4 * * *'') = []"
  by (simp add: due_jobs_def WORKER_CRON_TO_JOBS_def js_def)

lemma due_web_unmapped: "due_jobs WEB_CRON_TO_JOBS (js ''5 4 * * *'') = []"
  by (simp add: due_jobs_def WEB_CRON_TO_JOBS_def js_def)

lemma due_worker_hour: "due_jobs WORKER_CRON_TO_JOBS (js ''0 * * * *'') = [provideLiquidity]"
  by (simp add: due_jobs_def WORKER_CRON_TO_JOBS_def js_def)

lemma due_web_hour: "due_jobs WEB_CRON_TO_JOBS (js ''0 * * * *'') = []"
  by (simp add: due_jobs_def WEB_CRON_TO_JOBS_def js_def)

lemma quarter_results:
  "job_results (demo_runtime (Resolved unavailable)) (js ''*/15 * * * *'') demo_env () =
     [JobResultErr shieldClean (Some 503) 0
        (js ''https://daichronicles.io/api/internal/shield-clean'')
        (js ''https://daichronicles.io/'') (js ''HTTP 503'') (Some (js ''busy'')),
      JobResultErr recordDacPerformance (Some 503) 0
        (js ''https://daichronicles.io/api/internal/record-dac-performance'')
        (js ''https://daichronicles.io/'') (js ''HTTP 503'') (Some (js ''busy''))]"
  unfolding job_results_def tagged_jobs_def due_worker_quarter due_web_quarter
  by (simp add: runJob_def runJob_try_def nowISO_def job_request_def fullUrl_def Let_def
      demo_runtime_def collected_def unavailable_def demo_env_def startsWith_def
      show_nat.simps js_def slash_def)

lemma hour_results:
  "job_results (demo_runtime (Resolved server_error)) (js ''0 * * * *'') env () =
     [JobResultErr provideLiquidity (Some 500) 0
        (strip_trailing_slashes (BASE_URL env) @ js ''/api/internal/provide-liquidity'')
        (BASE_URL env) (js ''HTTP 500'') (Some (js ''boom''))]"
  unfolding job_results_def tagged_jobs_def due_worker_hour due_web_hour
  by (simp add: runJob_def runJob_try_def nowISO_def job_request_def fullUrl_def Let_def
      demo_runtime_def collected_def server_error_def
      show_nat.simps js_def)

lemma hour_alert_sent:
  "length (filter is_SlackFetch
     (events (scheduled (demo_runtime (Resolved server_error)) (js ''0 * * * *'') demo_env ()))) = 1"
  by (simp add: scheduled_def get_property_def tick_body_def send_alerts_def postSlack_def
      runJob_def runJob_try_def nowISO_def job_request_def fullUrl_def Let_def demo_runtime_def
      demo_env_def server_error_def WORKER_CRON_TO_JOBS_def WEB_CRON_TO_JOBS_def trim_def
      is_js_whitespace_def js_def startsWith_def slash_def)

lemma long_body_alert:
  "filter is_SlackFetch
     (events (scheduled (demo_runtime (Resolved long_body_response)) (js ''0 * * * *'')
                demo_env ())) =
     [SlackFetch
        \<lparr>req_url = js ''https://hooks.example/T'', req_method = js ''POST'',
         req_headers = [(js ''Content-Type'', js ''application/json'')],
         req_body = Some \<lparr>payload_text =
           slackTextForFailure
             \<lparr>opt_cron = js ''0 * * * *'', opt_job = provideLiquidity,
              opt_url = js ''https://daichronicles.io/api/internal/provide-liquidity'',
              opt_status = Some 500, opt_ms = 0,
              opt_baseUrl = js ''https://daichronicles.io/'', opt_timestampISO = js ''T'',
              opt_body = Some (replicate 1500 0x61)\<rparr>\<rparr>\<rparr>]"
  by (simp add: scheduled_def get_property_def tick_body_def send_alerts_def postSlack_def
      runJob_def runJob_try_def nowISO_def job_request_def fullUrl_def Let_def demo_runtime_def
      demo_env_def long_body_response_def WORKER_CRON_TO_JOBS_def WEB_CRON_TO_JOBS_def trim_def
      is_js_whitespace_def js_def startsWith_def slash_def)

lemma schedule_resolution_runs:
  "ENABLED demo_env = Some (js ''true'')
   \<and> filter is_JobFetch
       (events (scheduled (demo_runtime (Resolved unavailable)) (js ''*/1 * * * *'') demo_env ())) =
       [JobFetch (job_request worker syncChroniclesUpdates demo_env),
        JobFetch (job_request worker syncUserStakes demo_env),
        JobFetch (job_request worker healthz demo_env),
        JobFetch (job_request web healthz demo_env)]
   \<and> map job (job_results (demo_runtime (Resolved unavailable)) (js ''*/1 * * * *'') demo_env ()) =
       [syncChroniclesUpdates, syncUserStakes, healthz, healthz]
   \<and> scheduled (demo_runtime (Resolved unavailable)) (js ''5 4 * * *'') demo_env () =
       \<lparr>outcome = NoWork,
        events = [ConsoleError (js ''[T] no jobs mapped for cron='' @ [0x22] @ js ''5 4 * * *''
                                @ [0x22])],
        world_after = ()\<rparr>"
proof -
  have a: "ENABLED demo_env = Some (js ''true'')"
    by (simp add: demo_env_def)
  have b: "\<not> hits_prototype (js ''*/1 * * * *'')"
    by (simp add: hits_prototype_def Object_prototype_def js_def)
  have c: "\<not> hits_prototype (js ''5 4 * * *'')"
    by (simp add: hits_prototype_def Object_prototype_def js_def)
  from schedule_resolution_own [OF a b, of "demo_runtime (Resolved unavailable)" "()"]
  have minute: "filter is_JobFetch
       (events (scheduled (demo_runtime (Resolved unavailable)) (js ''*/1 * * * *'') demo_env ())) =
       [JobFetch (job_request worker syncChroniclesUpdates demo_env),
        JobFetch (job_request worker syncUserStakes demo_env),
        JobFetch (job_request worker healthz demo_env),
        JobFetch (job_request web healthz demo_env)]
      \<and> map job (job_results (demo_runtime (Resolved unavailable)) (js ''*/1 * * * *'') demo_env ()) =
       [syncChroniclesUpdates, syncUserStakes, healthz, healthz]"
    by (simp add: due_worker_minute due_web_minute)
  from schedule_resolution_own [OF a c, of "demo_runtime (Resolved unavailable)" "()"]
  have "scheduled (demo_runtime (Resolved unavailable)) (js ''5 4 * * *'') demo_env () =
       \<lparr>outcome = NoWork,
        events = [ConsoleError (js ''['' @ js ''T'' @ js ''] no jobs mapped for cron=''
                                @ [0x22] @ js ''5 4 * * *'' @ [0x22])],
        world_after = ()\<rparr>"
    by (simp add: due_worker_unmapped due_web_unmapped demo_nowISO)
  then have unmapped:
    "scheduled (demo_runtime (Resolved unavailable)) (js ''5 4 * * *'') demo_env () =
       \<lparr>outcome = NoWork,
        events = [ConsoleError (js ''[T] no jobs mapped for cron='' @ [0x22] @ js ''5 4 * * *''
                                @ [0x22])],
        world_after = ()\<rparr>"
    by (simp add: js_def)
  from a minute unmapped show ?thesis by simp
qed

section \<open>Properties\<close>

text \<open>
  C1. \<open>shouldAlert\<close> returns false exactly when the status is 503, or 409, or 524 with
  the job \<open>provideLiquidity\<close>. Every other result is alert-worthy, in particular a failed
  result without a status, and so is a missing result.
\<close>

theorem shouldAlert_suppression:
  "shouldAlert (Some r) =
     (\<not> (status r = Some 503 \<or> status r = Some 409
         \<or> (status r = Some 524 \<and> job r = provideLiquidity)))
   \<and> shouldAlert (Some (JobResultErr j None m u b e bd))
   \<and> shouldAlert None"
  by simp

text \<open>
  C2. When the feature flag is on and the expression has jobs, the promise of the tick is
  rejected exactly when some result is failed. The error message then gives the number of
  failed results, the number of all results, and the number of failed results that
  \<open>shouldAlert\<close> classifies as alert-worthy, as
  \<open>Some jobs failed for cron=<cron>: <failed>/<total> (unexpected failures=<n>)\<close>. The
  failed count is the alert-worthy failures plus the suppressed ones, and there is one
  result for each due job.
\<close>

theorem aggregate_error:
  assumes "ENABLED env = Some (js ''true'')" and "due_jobs WORKER_CRON_TO_JOBS cron \<noteq> []"
  shows "outcome (scheduled rt cron env w0) =
           (if list_ex (\<lambda>r. \<not> ok r) (job_results rt cron env w0)
            then WorkRejected (ErrorObject
                   (js ''Some jobs failed for cron='' @ cron @ js '': ''
                    @ show_nat (length (filter (\<lambda>r. \<not> ok r) (job_results rt cron env w0)))
                    @ js ''/'' @ show_nat (length (job_results rt cron env w0))
                    @ js '' (unexpected failures=''
                    @ show_nat (length (filter (\<lambda>r. \<not> ok r \<and> shouldAlert (Some r))
                                          (job_results rt cron env w0)))
                    @ js '')''))
            else WorkFulfilled)
         \<and> length (filter (\<lambda>r. \<not> ok r) (job_results rt cron env w0)) =
             length (filter (\<lambda>r. \<not> ok r \<and> shouldAlert (Some r)) (job_results rt cron env w0))
             + length (filter (\<lambda>r. \<not> ok r \<and> \<not> shouldAlert (Some r)) (job_results rt cron env w0))
         \<and> map job (job_results rt cron env w0) = map snd (tagged_jobs cron)"
proof -
  let ?R = "job_results rt cron env w0"
  have ex: "list_ex (\<lambda>r. \<not> ok r) ?R = (filter (\<lambda>r. \<not> ok r) ?R \<noteq> [])"
    by (simp add: list_ex_iff filter_empty_conv)
  have out: "outcome (scheduled rt cron env w0) =
      (case finalize cron ?R of Some e \<Rightarrow> WorkRejected e | None \<Rightarrow> WorkFulfilled)"
    using assms by (simp add: scheduled_outcome)
  have first: "outcome (scheduled rt cron env w0) =
           (if list_ex (\<lambda>r. \<not> ok r) ?R
            then WorkRejected (ErrorObject
                   (js ''Some jobs failed for cron='' @ cron @ js '': ''
                    @ show_nat (length (filter (\<lambda>r. \<not> ok r) ?R))
                    @ js ''/'' @ show_nat (length ?R)
                    @ js '' (unexpected failures=''
                    @ show_nat (length (filter (\<lambda>r. \<not> ok r \<and> shouldAlert (Some r)) ?R))
                    @ js '')''))
            else WorkFulfilled)"
    unfolding out finalize_eq ex by simp
  have "length (filter (\<lambda>r. \<not> ok r) ?R) =
      length (filter (\<lambda>r. shouldAlert (Some r)) (filter (\<lambda>r. \<not> ok r) ?R))
      + length (filter (\<lambda>r. \<not> shouldAlert (Some r)) (filter (\<lambda>r. \<not> ok r) ?R))"
    by (rule sum_length_filter_compl [symmetric])
  then have split: "length (filter (\<lambda>r. \<not> ok r) ?R) =
             length (filter (\<lambda>r. \<not> ok r \<and> shouldAlert (Some r)) ?R)
             + length (filter (\<lambda>r. \<not> ok r \<and> \<not> shouldAlert (Some r)) ?R)"
    by (simp only: filter_filter)
  have jobs: "map job ?R = map snd (tagged_jobs cron)"
    by (simp add: job_results_def run_jobs_jobs)
  from first split jobs show ?thesis by blast
qed

text \<open>
  Two jobs that both answer 503, with a webhook configured: the tick fails with
  \<open>2/2\<close> and \<open>unexpected failures=0\<close>.
\<close>

theorem aggregate_error_witness:
  "ENABLED demo_env = Some (js ''true'')
   \<and> due_jobs WORKER_CRON_TO_JOBS (js ''*/15 * * * *'') \<noteq> []
   \<and> outcome (scheduled (demo_runtime (Resolved unavailable)) (js ''*/15 * * * *'') demo_env ()) =
       WorkRejected (ErrorObject
         (js ''Some jobs failed for cron=*/15 * * * *: 2/2 (unexpected failures=0)''))"
proof -
  have a: "ENABLED demo_env = Some (js ''true'')"
    by (simp add: demo_env_def)
  have b: "due_jobs WORKER_CRON_TO_JOBS (js ''*/15 * * * *'') \<noteq> []"
    by (simp add: due_worker_quarter)
  from aggregate_error [OF a b, of "demo_runtime (Resolved unavailable)" "()"]
  have "outcome (scheduled (demo_runtime (Resolved unavailable)) (js ''*/15 * * * *'') demo_env ()) =
       WorkRejected (ErrorObject
         (js ''Some jobs failed for cron=*/15 * * * *: 2/2 (unexpected failures=0)''))"
    unfolding quarter_results by (simp add: show_nat.simps js_def)
  with a b show ?thesis by simp
qed

text \<open>
  C3. \<open>runJob\<close> never raises: its promise is fulfilled with a result for the job. When
  \<open>fetch\<close> rejects, the result is failed, has no status and no body, and its error is the
  message of what was thrown. When a response arrives that is not ok, the result is failed
  and carries the status, the error \<open>HTTP <status>\<close> and the body cut at 1500 code units.
  When the response is ok the result is successful. The result has a status exactly when
  a response arrived.
\<close>

theorem runJob_never_raises:
  "\<exists>r. fst (runJob rt platform jobKey env w0) = Inr r
     \<and> job r = jobKey
     \<and> (case fetch_answer rt platform jobKey env w0 of
          Rejected e \<Rightarrow>
            \<not> ok r \<and> status r = None \<and> error r = message_of e \<and> body r = None
        | Resolved res \<Rightarrow>
            if res_ok res then ok r \<and> status r = Some (res_status res)
            else \<not> ok r \<and> status r = Some (res_status res)
                 \<and> error r = js ''HTTP '' @ show_nat (res_status res)
                 \<and> body r = Some (take 1500 (response_text res)))
     \<and> (status r \<noteq> None) = (\<exists>res. fetch_answer rt platform jobKey env w0 = Resolved res)"
  by (simp add: runJob_value split: fetch_outcome.splits)

text \<open>
  A refused connection gives a failed result without a status that carries the message;
  a 503 gives a failed result with the status and \<open>HTTP 503\<close>.
\<close>

theorem runJob_never_raises_witness:
  "fst (runJob (demo_runtime (Rejected (ErrorObject (js ''connection refused''))))
          web healthz demo_env ()) =
     Inr (JobResultErr healthz None 0 (js ''https://web.example/api/healthz'')
            (js ''https://web.example//'') (js ''connection refused'') None)
   \<and> fst (runJob (demo_runtime (Resolved unavailable)) web healthz demo_env ()) =
     Inr (JobResultErr healthz (Some 503) 0 (js ''https://web.example/api/healthz'')
            (js ''https://web.example//'') (js ''HTTP 503'') (Some (js ''busy'')))"
proof -
  let ?refused = "demo_runtime (Rejected (ErrorObject (js ''connection refused'')))"
  obtain r where r: "fst (runJob ?refused web healthz demo_env ()) = Inr r"
    and "job r = healthz" and "\<not> ok r" and "status r = None"
    and "error r = js ''connection refused''" and "body r = None"
    using runJob_never_raises [of ?refused web healthz demo_env "()"]
    by (auto simp: fetch_answer_def demo_runtime_def)
  moreover have u: "url r = js ''https://web.example/api/healthz''"
    and "baseUrl r = js ''https://web.example//''" and "ms r = 0"
    using r
    by (auto simp add: runJob_value fetch_answer_def elapsed_def demo_runtime_def
        req_url_job_request base_of_def demo_env_def js_def slash_def)
  ultimately have first: "r = JobResultErr healthz None 0 (js ''https://web.example/api/healthz'')
            (js ''https://web.example//'') (js ''connection refused'') None"
    by (cases r) simp_all
  have second: "fst (runJob (demo_runtime (Resolved unavailable)) web healthz demo_env ()) =
     Inr (JobResultErr healthz (Some 503) 0 (js ''https://web.example/api/healthz'')
            (js ''https://web.example//'') (js ''HTTP 503'') (Some (js ''busy'')))"
    by (simp add: runJob_value fetch_answer_def elapsed_def demo_runtime_def unavailable_def
        response_text_def req_url_job_request base_of_def demo_env_def show_nat.simps
        js_def slash_def)
  from r first second show ?thesis by simp
qed

text \<open>
  C4. Schedule resolution at an expression that has no entry in either table but is the
  name of a member every object inherits: with the feature flag on, the handler does not
  log \<open>no jobs mapped\<close> and return. The lookup finds the inherited member, whose \<open>length\<close>
  is not 0, so the early return is skipped; the work handed to \<open>ctx.waitUntil\<close> calls
  \<open>map\<close> on it and is rejected with a \<open>TypeError\<close>, before any job is invoked and without a
  log line. Every other expression is resolved as the tables say (lemma
  \<open>schedule_resolution_own\<close>).
\<close>

theorem inherited_name_rejects:
  "due_jobs WORKER_CRON_TO_JOBS (js ''constructor'') = []
   \<and> due_jobs WEB_CRON_TO_JOBS (js ''constructor'') = []
   \<and> scheduled rt (js ''constructor'') demo_env w0 =
       \<lparr>outcome = WorkRejected (ErrorObject (js ''workerJobs.map is not a function'')),
        events = [], world_after = w0\<rparr>
   \<and> scheduled rt (js ''__proto__'') demo_env w0 =
       \<lparr>outcome = WorkRejected (ErrorObject (js ''workerJobs.map is not a function'')),
        events = [], world_after = w0\<rparr>
   \<and> scheduled rt (js ''hasOwnProperty'') demo_env w0 =
       \<lparr>outcome = WorkRejected (ErrorObject (js ''workerJobs.map is not a function'')),
        events = [], world_after = w0\<rparr>"
proof -
  have on: "ENABLED demo_env = Some (js ''true'')"
    by (simp add: demo_env_def)
  have c: "hits_prototype (js ''constructor'')"
    by (simp add: hits_prototype_def Object_prototype_def js_def)
  have p: "hits_prototype (js ''__proto__'')"
    by (simp add: hits_prototype_def Object_prototype_def js_def)
  have h: "hits_prototype (js ''hasOwnProperty'')"
    by (simp add: hits_prototype_def Object_prototype_def js_def)
  from c have "due_jobs WORKER_CRON_TO_JOBS (js ''constructor'') = []
      \<and> due_jobs WEB_CRON_TO_JOBS (js ''constructor'') = []"
    by (rule hits_prototype_not_due)
  with on c p h show ?thesis
    by (simp add: scheduled_hits_prototype)
qed

text \<open>
  C5. When the feature flag is off, the tick logs the skip notice with the cron expression
  and does nothing else: no request is sent, no work is handed over, nothing is raised,
  whatever the expression is.
\<close>

theorem disabled_tick_skips:
  assumes "(case ENABLED env of None \<Rightarrow> js ''false'' | Some v \<Rightarrow> v) \<noteq> js ''true''"
  shows "scheduled rt cron env w0 =
           \<lparr>outcome = NoWork,
            events = [ConsoleLog (js ''['' @ fst (nowISO rt w0)
                                  @ js ''] [disabled] skipping cron='' @ cron)],
            world_after = snd (nowISO rt w0)\<rparr>
         \<and> filter sent (events (scheduled rt cron env w0)) = []
         \<and> outcome (scheduled rt cron env w0) \<noteq> WorkRejected e"
proof -
  have "ENABLED env \<noteq> Some (js ''true'')"
    using assms flag_iff [of env] by simp
  then have "scheduled rt cron env w0 =
           \<lparr>outcome = NoWork,
            events = [ConsoleLog (js ''['' @ fst (nowISO rt w0)
                                  @ js ''] [disabled] skipping cron='' @ cron)],
            world_after = snd (nowISO rt w0)\<rparr>"
    by (rule scheduled_disabled)
  then show ?thesis by (simp add: sent_def)
qed

text \<open>\<open>ENABLED = 'false'\<close> on an expression that has jobs, against a failing backend.\<close>

theorem disabled_tick_skips_witness:
  "(case ENABLED (demo_env\<lparr>ENABLED := Some (js ''false'')\<rparr>) of
      None \<Rightarrow> js ''false'' | Some v \<Rightarrow> v) \<noteq> js ''true''
   \<and> due_jobs WORKER_CRON_TO_JOBS (js ''*/1 * * * *'') \<noteq> []
   \<and> scheduled (demo_runtime (Resolved server_error)) (js ''*/1 * * * *'')
        (demo_env\<lparr>ENABLED := Some (js ''false'')\<rparr>) () =
       \<lparr>outcome = NoWork,
        events = [ConsoleLog (js ''[T] [disabled] skipping cron=*/1 * * * *'')],
        world_after = ()\<rparr>"
proof -
  have a: "(case ENABLED (demo_env\<lparr>ENABLED := Some (js ''false'')\<rparr>) of
      None \<Rightarrow> js ''false'' | Some v \<Rightarrow> v) \<noteq> js ''true''"
    by (simp add: js_def)
  have b: "due_jobs WORKER_CRON_TO_JOBS (js ''*/1 * * * *'') \<noteq> []"
    by (simp add: due_worker_minute)
  from disabled_tick_skips [OF a, of "demo_runtime (Resolved server_error)" "js ''*/1 * * * *''" "()"]
  have "scheduled (demo_runtime (Resolved server_error)) (js ''*/1 * * * *'')
        (demo_env\<lparr>ENABLED := Some (js ''false'')\<rparr>) () =
       \<lparr>outcome = NoWork,
        events = [ConsoleLog (js ''[T] [disabled] skipping cron=*/1 * * * *'')],
        world_after = ()\<rparr>"
    by (simp add: demo_nowISO js_def)
  with a b show ?thesis by simp
qed

text \<open>
  C6. For a response that is not ok, the body recorded in the result is the response text
  cut at 1500 code units: exactly 1500 when the text is longer, the text itself otherwise.
  The error line that is logged ends with this body, and the text of an alert built from
  the result ends with it (followed by the closing fence) unless it is empty. In a tick,
  every result is the result of a call of \<open>runJob\<close> and carries the cut body of the
  response that call got; the alerts the tick posts are, in order, one request for each
  failed result that \<open>shouldAlert\<close> accepts, to the trimmed webhook, whose text is
  \<open>slackTextForFailure\<close> of that result with that body; and no alert is posted when the
  flag is off, the expression has no jobs, or the webhook is missing or blank.
\<close>

theorem body_truncated:
  assumes "fetch_answer rt platform jobKey env w0 = Resolved res" and "\<not> res_ok res"
  shows "(\<exists>r pre pre'. fst (runJob rt platform jobKey env w0) = Inr r
           \<and> body r = Some (take 1500 (response_text res))
           \<and> length (take 1500 (response_text res)) = min 1500 (length (response_text res))
           \<and> (if 1500 < length (response_text res)
               then length (take 1500 (response_text res)) = 1500
               else take 1500 (response_text res) = response_text res)
           \<and> fst (snd (runJob rt platform jobKey env w0)) =
               [JobFetch (job_request platform jobKey env),
                ConsoleError (pre @ js '' body='' @ take 1500 (response_text res))]
           \<and> slackTextForFailure
                \<lparr>opt_cron = cron, opt_job = job r, opt_url = url r, opt_status = status r,
                 opt_ms = ms r, opt_baseUrl = baseUrl r, opt_timestampISO = ts,
                 opt_body = body r\<rparr> =
               pre' @ (if take 1500 (response_text res) = [] then []
                       else take 1500 (response_text res) @ newline @ fence))
         \<and> (\<forall>r \<in> set (job_results rt cron env w1).
               \<exists>p j w. fst (runJob rt p j env w) = Inr r
                 \<and> body r = (case fetch_answer rt p j env w of
                               Rejected e \<Rightarrow> None
                             | Resolved res' \<Rightarrow>
                                 if res_ok res' then None
                                 else Some (take 1500 (response_text res'))))
         \<and> (\<exists>tss. length tss =
                 length (filter (\<lambda>r. \<not> ok r \<and> shouldAlert (Some r)) (job_results rt cron env w1))
               \<and> filter is_SlackFetch (events (scheduled rt cron env w1)) =
                   (if ENABLED env = Some (js ''true'')
                       \<and> due_jobs WORKER_CRON_TO_JOBS cron \<noteq> [] \<and> webhook_of env \<noteq> []
                    then map2 (\<lambda>r ts. SlackFetch
                                 \<lparr>req_url = webhook_of env, req_method = js ''POST'',
                                  req_headers = [(js ''Content-Type'', js ''application/json'')],
                                  req_body = Some \<lparr>payload_text =
                                    slackTextForFailure
                                      \<lparr>opt_cron = cron, opt_job = job r, opt_url = url r,
                                       opt_status = status r, opt_ms = ms r,
                                       opt_baseUrl = baseUrl r, opt_timestampISO = ts,
                                       opt_body = body r\<rparr>\<rparr>\<rparr>)
                           (filter (\<lambda>r. \<not> ok r \<and> shouldAlert (Some r))
                              (job_results rt cron env w1)) tss
                    else []))"
proof -
  have one: "\<exists>r pre pre'. fst (runJob rt platform jobKey env w0) = Inr r
           \<and> body r = Some (take 1500 (response_text res))
           \<and> length (take 1500 (response_text res)) = min 1500 (length (response_text res))
           \<and> (if 1500 < length (response_text res)
               then length (take 1500 (response_text res)) = 1500
               else take 1500 (response_text res) = response_text res)
           \<and> fst (snd (runJob rt platform jobKey env w0)) =
               [JobFetch (job_request platform jobKey env),
                ConsoleError (pre @ js '' body='' @ take 1500 (response_text res))]
           \<and> slackTextForFailure
                \<lparr>opt_cron = cron, opt_job = job r, opt_url = url r, opt_status = status r,
                 opt_ms = ms r, opt_baseUrl = baseUrl r, opt_timestampISO = ts,
                 opt_body = body r\<rparr> =
               pre' @ (if take 1500 (response_text res) = [] then []
                       else take 1500 (response_text res) @ newline @ fence)"
    using assms by (rule runJob_body_truncated)
  have every: "\<forall>r \<in> set (job_results rt cron env w1).
               \<exists>p j w. fst (runJob rt p j env w) = Inr r
                 \<and> body r = (case fetch_answer rt p j env w of
                               Rejected e \<Rightarrow> None
                             | Resolved res' \<Rightarrow>
                                 if res_ok res' then None
                                 else Some (take 1500 (response_text res')))"
  proof
    fix r
    assume "r \<in> set (job_results rt cron env w1)"
    then obtain p j w where run: "fst (runJob rt p j env w) = Inr r"
      using run_jobs_results_from_runJob [of r rt env "tagged_jobs cron" w1]
      by (auto simp add: job_results_def)
    from runJob_body [OF run] run
    show "\<exists>p j w. fst (runJob rt p j env w) = Inr r
                 \<and> body r = (case fetch_answer rt p j env w of
                               Rejected e \<Rightarrow> None
                             | Resolved res' \<Rightarrow>
                                 if res_ok res' then None
                                 else Some (take 1500 (response_text res')))"
      by blast
  qed
  have posted: "\<exists>tss. length tss =
                 length (filter (\<lambda>r. \<not> ok r \<and> shouldAlert (Some r)) (job_results rt cron env w1))
               \<and> filter is_SlackFetch (events (scheduled rt cron env w1)) =
                   (if ENABLED env = Some (js ''true'')
                       \<and> due_jobs WORKER_CRON_TO_JOBS cron \<noteq> [] \<and> webhook_of env \<noteq> []
                    then map2 (\<lambda>r ts. SlackFetch
                                 \<lparr>req_url = webhook_of env, req_method = js ''POST'',
                                  req_headers = [(js ''Content-Type'', js ''application/json'')],
                                  req_body = Some \<lparr>payload_text =
                                    slackTextForFailure
                                      \<lparr>opt_cron = cron, opt_job = job r, opt_url = url r,
                                       opt_status = status r, opt_ms = ms r,
                                       opt_baseUrl = baseUrl r, opt_timestampISO = ts,
                                       opt_body = body r\<rparr>\<rparr>\<rparr>)
                           (filter (\<lambda>r. \<not> ok r \<and> shouldAlert (Some r))
                              (job_results rt cron env w1)) tss
                    else [])"
    using scheduled_slack_fetches [of rt cron env w1]
    unfolding alert_request_def by simp
  from one every posted show ?thesis by blast
qed

text \<open>
  A body of 2000 code units is recorded as its first 1500, and the one alert of the tick
  carries these 1500 code units.
\<close>

theorem body_truncated_witness:
  "fetch_answer (demo_runtime (Resolved long_body_response)) worker provideLiquidity demo_env ()
     = Resolved long_body_response
   \<and> \<not> res_ok long_body_response
   \<and> length (response_text long_body_response) = 2000
   \<and> (\<exists>r. fst (runJob (demo_runtime (Resolved long_body_response)) worker provideLiquidity
                demo_env ()) = Inr r
          \<and> body r = Some (replicate 1500 0x61))
   \<and> filter is_SlackFetch
       (events (scheduled (demo_runtime (Resolved long_body_response)) (js ''0 * * * *'')
                  demo_env ())) =
       [SlackFetch
          \<lparr>req_url = js ''https://hooks.example/T'', req_method = js ''POST'',
           req_headers = [(js ''Content-Type'', js ''application/json'')],
           req_body = Some \<lparr>payload_text =
             slackTextForFailure
               \<lparr>opt_cron = js ''0 * * * *'', opt_job = provideLiquidity,
                opt_url = js ''https://daichronicles.io/api/internal/provide-liquidity'',
                opt_status = Some 500, opt_ms = 0,
                opt_baseUrl = js ''https://daichronicles.io/'', opt_timestampISO = js ''T'',
                opt_body = Some (replicate 1500 0x61)\<rparr>\<rparr>\<rparr>]
   \<and> (\<exists>pre. slackTextForFailure
               \<lparr>opt_cron = js ''0 * * * *'', opt_job = provideLiquidity,
                opt_url = js ''https://daichronicles.io/api/internal/provide-liquidity'',
                opt_status = Some 500, opt_ms = 0,
                opt_baseUrl = js ''https://daichronicles.io/'', opt_timestampISO = js ''T'',
                opt_body = Some (replicate 1500 0x61)\<rparr> =
              pre @ replicate 1500 0x61 @ newline @ fence)"
proof -
  have a: "fetch_answer (demo_runtime (Resolved long_body_response)) worker provideLiquidity
             demo_env () = Resolved long_body_response"
    by (simp add: fetch_answer_def demo_runtime_def)
  have b: "\<not> res_ok long_body_response"
    by (simp add: long_body_response_def)
  have c: "response_text long_body_response = replicate 2000 0x61"
    by (simp add: response_text_def long_body_response_def)
  from body_truncated [OF a b, THEN conjunct1]
  obtain r where "fst (runJob (demo_runtime (Resolved long_body_response)) worker
                provideLiquidity demo_env ()) = Inr r"
    and "body r = Some (take 1500 (response_text long_body_response))"
    by auto
  then have recorded: "\<exists>r. fst (runJob (demo_runtime (Resolved long_body_response)) worker
                provideLiquidity demo_env ()) = Inr r
          \<and> body r = Some (replicate 1500 0x61)"
    using c by auto
  have ending: "\<exists>pre. slackTextForFailure
               \<lparr>opt_cron = js ''0 * * * *'', opt_job = provideLiquidity,
                opt_url = js ''https://daichronicles.io/api/internal/provide-liquidity'',
                opt_status = Some 500, opt_ms = 0,
                opt_baseUrl = js ''https://daichronicles.io/'', opt_timestampISO = js ''T'',
                opt_body = Some (replicate 1500 0x61)\<rparr> =
              pre @ replicate 1500 0x61 @ newline @ fence"
    using slackTextForFailure_body [of "\<lparr>opt_cron = js ''0 * * * *'', opt_job = provideLiquidity,
                opt_url = js ''https://daichronicles.io/api/internal/provide-liquidity'',
                opt_status = Some 500, opt_ms = 0,
                opt_baseUrl = js ''https://daichronicles.io/'', opt_timestampISO = js ''T'',
                opt_body = Some (replicate 1500 0x61)\<rparr>"]
    by simp
  from a b c recorded long_body_alert ending show ?thesis
    by simp
qed

text \<open>
  C7. The request of a job goes to the base URL of its platform without its trailing
  slashes, followed by the path of the job, with the method of the job. It carries the
  header \<open>Internal-Authorization\<close> with the key exactly when the path starts with
  \<open>/api/internal/\<close>, which is the case for every job but \<open>healthz\<close>. One call of \<open>runJob\<close>
  sends this request and no other.
\<close>

theorem job_request_shape:
  "job_request platform jobKey env =
     \<lparr>req_url = rev (dropWhile (\<lambda>c. c = slash) (rev (base_of platform env)))
                 @ path (JOB_ENDPOINT jobKey),
      req_method = http_method (JOB_ENDPOINT jobKey),
      req_headers =
        (if startsWith (path (JOB_ENDPOINT jobKey)) (js ''/api/internal/'')
         then [(js ''Internal-Authorization'', INTERNAL_API_KEY env)] else []),
      req_body = None\<rparr>
   \<and> startsWith (path (JOB_ENDPOINT jobKey)) (js ''/api/internal/'') = (jobKey \<noteq> healthz)
   \<and> req_headers (job_request platform healthz env) = []
   \<and> filter sent (fst (snd (runJob rt platform jobKey env w0))) =
       [JobFetch (job_request platform jobKey env)]"
proof -
  have shape: "job_request platform jobKey env =
     \<lparr>req_url = rev (dropWhile (\<lambda>c. c = slash) (rev (base_of platform env)))
                 @ path (JOB_ENDPOINT jobKey),
      req_method = http_method (JOB_ENDPOINT jobKey),
      req_headers =
        (if startsWith (path (JOB_ENDPOINT jobKey)) (js ''/api/internal/'')
         then [(js ''Internal-Authorization'', INTERNAL_API_KEY env)] else []),
      req_body = None\<rparr>"
    by (simp add: job_request_def fullUrl_eq strip_trailing_slashes_rev)
  have internal: "startsWith (path (JOB_ENDPOINT jobKey)) (js ''/api/internal/'') = (jobKey \<noteq> healthz)"
    by (rule internal_path_iff)
  have health: "req_headers (job_request platform healthz env) = []"
    using internal_path_iff [of healthz] by (simp add: job_request_def fullUrl_eq)
  obtain line where "fst (snd (runJob rt platform jobKey env w0)) =
      [JobFetch (job_request platform jobKey env), line]"
    and "\<not> is_JobFetch line" and "\<not> is_SlackFetch line"
    using runJob_events [of rt platform jobKey env w0] by auto
  then have one: "filter sent (fst (snd (runJob rt platform jobKey env w0))) =
       [JobFetch (job_request platform jobKey env)]"
    by (simp add: sent_def)
  from shape internal health one show ?thesis by blast
qed

text \<open>
  The web base URL ends in two slashes, which are both removed; the health job carries no
  header, the liquidity job carries the key.
\<close>

theorem job_request_shape_witness:
  "job_request web healthz demo_env =
     \<lparr>req_url = js ''https://web.example/api/healthz'', req_method = js ''GET'',
      req_headers = [], req_body = None\<rparr>
   \<and> job_request worker provideLiquidity demo_env =
     \<lparr>req_url = js ''https://daichronicles.io/api/internal/provide-liquidity'',
      req_method = js ''POST'',
      req_headers = [(js ''Internal-Authorization'', js ''secret'')], req_body = None\<rparr>"
proof -
  have "job_request web healthz demo_env =
     \<lparr>req_url = js ''https://web.example/api/healthz'', req_method = js ''GET'',
      req_headers = [], req_body = None\<rparr>"
    using job_request_shape [of web healthz demo_env "demo_runtime (Resolved unavailable)" "()"]
    by (simp add: base_of_def demo_env_def js_def slash_def)
  moreover have "job_request worker provideLiquidity demo_env =
     \<lparr>req_url = js ''https://daichronicles.io/api/internal/provide-liquidity'',
      req_method = js ''POST'',
      req_headers = [(js ''Internal-Authorization'', js ''secret'')], req_body = None\<rparr>"
    using job_request_shape [of worker provideLiquidity demo_env
        "demo_runtime (Resolved unavailable)" "()"]
    by (simp add: base_of_def demo_env_def js_def slash_def)
  ultimately show ?thesis by simp
qed

text \<open>
  C8. The HTTP handler answers 200 with the body \<open>ok\<close> when the method is GET and the path
  is \<open>/\<close>, and 404 otherwise. It sends no request, so it invokes no job.
\<close>

theorem fetch_liveness:
  "out_status (fst (fetch pathname req)) =
     (if in_method req = js ''GET'' \<and> pathname (in_url req) = js ''/'' then 200 else 404)
   \<and> out_body (fst (fetch pathname req)) =
     (if in_method req = js ''GET'' \<and> pathname (in_url req) = js ''/'' then js ''ok''
      else js ''not found'')
   \<and> snd (fetch pathname req) = []"
  by (simp add: fetch_def)

text \<open>
  C9. The feature flag is compared as a string, exactly: the tick is skipped if and only
  if \<open>ENABLED\<close> is not the string \<open>true\<close>. With \<open>true\<close> the due jobs are invoked; with any
  other value, or with none, nothing is sent.
\<close>

theorem flag_exact_comparison:
  "(ENABLED env \<noteq> Some (js ''true'')) =
     (events (scheduled rt cron env w0) =
        [ConsoleLog (js ''['' @ fst (nowISO rt w0) @ js ''] [disabled] skipping cron='' @ cron)])
   \<and> (if ENABLED env = Some (js ''true'')
       then filter is_JobFetch (events (scheduled rt cron env w0)) =
              (if due_jobs WORKER_CRON_TO_JOBS cron = [] then []
               else map (\<lambda>(p, j). JobFetch (job_request p j env)) (tagged_jobs cron))
       else filter sent (events (scheduled rt cron env w0)) = []
            \<and> outcome (scheduled rt cron env w0) = NoWork)"
proof (cases "ENABLED env = Some (js ''true'')")
  case False
  then show ?thesis by (simp add: scheduled_disabled sent_def)
next
  case True
  have "events (scheduled rt cron env w0) \<noteq>
        [ConsoleLog (js ''['' @ fst (nowISO rt w0) @ js ''] [disabled] skipping cron='' @ cron)]"
  proof (cases "due_jobs WORKER_CRON_TO_JOBS cron = []")
    case True
    with \<open>ENABLED env = Some (js ''true'')\<close> show ?thesis
      by (simp add: scheduled_undispatched)
  next
    case False
    then have "tagged_jobs cron \<noteq> []"
      by (simp add: tagged_jobs_def)
    then obtain req rest where
      "fst (snd (run_jobs rt env (tagged_jobs cron) w0)) = JobFetch req # rest"
      using run_jobs_first_event [of "tagged_jobs cron" rt env w0] by auto
    with True False show ?thesis
      by (simp add: scheduled_dispatch tick_body_eq)
  qed
  with True show ?thesis
    by (simp add: scheduled_job_fetches)
qed

text \<open>
  \<open>TRUE\<close>, \<open>True\<close>, \<open>1\<close>, \<open>true\<close> followed by a space, and an unset variable all skip the
  tick; \<open>true\<close> runs the job.
\<close>

theorem flag_exact_comparison_witness:
  "events (scheduled (demo_runtime (Resolved unavailable)) (js ''0 * * * *'')
             (demo_env\<lparr>ENABLED := Some (js ''TRUE'')\<rparr>) ()) =
     [ConsoleLog (js ''[T] [disabled] skipping cron=0 * * * *'')]
   \<and> events (scheduled (demo_runtime (Resolved unavailable)) (js ''0 * * * *'')
             (demo_env\<lparr>ENABLED := Some (js ''True'')\<rparr>) ()) =
     [ConsoleLog (js ''[T] [disabled] skipping cron=0 * * * *'')]
   \<and> events (scheduled (demo_runtime (Resolved unavailable)) (js ''0 * * * *'')
             (demo_env\<lparr>ENABLED := Some (js ''1'')\<rparr>) ()) =
     [ConsoleLog (js ''[T] [disabled] skipping cron=0 * * * *'')]
   \<and> events (scheduled (demo_runtime (Resolved unavailable)) (js ''0 * * * *'')
             (demo_env\<lparr>ENABLED := Some (js ''true '')\<rparr>) ()) =
     [ConsoleLog (js ''[T] [disabled] skipping cron=0 * * * *'')]
   \<and> events (scheduled (demo_runtime (Resolved unavailable)) (js ''0 * * * *'')
             (demo_env\<lparr>ENABLED := None\<rparr>) ()) =
     [ConsoleLog (js ''[T] [disabled] skipping cron=0 * * * *'')]
   \<and> filter is_JobFetch
       (events (scheduled (demo_runtime (Resolved unavailable)) (js ''0 * * * *'') demo_env ())) =
     [JobFetch (job_request worker provideLiquidity demo_env)]"
proof -
  let ?rt = "demo_runtime (Resolved unavailable)"
  let ?cron = "js ''0 * * * *''"
  have skip: "js ''['' @ fst (nowISO ?rt ()) @ js ''] [disabled] skipping cron='' @ ?cron =
      js ''[T] [disabled] skipping cron=0 * * * *''"
    by (simp add: demo_nowISO js_def)
  have on: "ENABLED demo_env = Some (js ''true'')"
    by (simp add: demo_env_def)
  have 1: "events (scheduled ?rt ?cron (demo_env\<lparr>ENABLED := Some (js ''TRUE'')\<rparr>) ()) =
     [ConsoleLog (js ''[T] [disabled] skipping cron=0 * * * *'')]"
    using flag_exact_comparison [of "demo_env\<lparr>ENABLED := Some (js ''TRUE'')\<rparr>" ?rt ?cron "()"]
    unfolding skip by (simp add: js_def)
  have 2: "events (scheduled ?rt ?cron (demo_env\<lparr>ENABLED := Some (js ''True'')\<rparr>) ()) =
     [ConsoleLog (js ''[T] [disabled] skipping cron=0 * * * *'')]"
    using flag_exact_comparison [of "demo_env\<lparr>ENABLED := Some (js ''True'')\<rparr>" ?rt ?cron "()"]
    unfolding skip by (simp add: js_def)
  have 3: "events (scheduled ?rt ?cron (demo_env\<lparr>ENABLED := Some (js ''1'')\<rparr>) ()) =
     [ConsoleLog (js ''[T] [disabled] skipping cron=0 * * * *'')]"
    using flag_exact_comparison [of "demo_env\<lparr>ENABLED := Some (js ''1'')\<rparr>" ?rt ?cron "()"]
    unfolding skip by (simp add: js_def)
  have 4: "events (scheduled ?rt ?cron (demo_env\<lparr>ENABLED := Some (js ''true '')\<rparr>) ()) =
     [ConsoleLog (js ''[T] [disabled] skipping cron=0 * * * *'')]"
    using flag_exact_comparison [of "demo_env\<lparr>ENABLED := Some (js ''true '')\<rparr>" ?rt ?cron "()"]
    unfolding skip by (simp add: js_def)
  have 5: "events (scheduled ?rt ?cron (demo_env\<lparr>ENABLED := None\<rparr>) ()) =
     [ConsoleLog (js ''[T] [disabled] skipping cron=0 * * * *'')]"
    using flag_exact_comparison [of "demo_env\<lparr>ENABLED := None\<rparr>" ?rt ?cron "()"]
    unfolding skip by simp
  have 6: "filter is_JobFetch (events (scheduled ?rt ?cron demo_env ())) =
     [JobFetch (job_request worker provideLiquidity demo_env)]"
    using flag_exact_comparison [of demo_env ?rt ?cron "()"] on
    by (simp add: due_worker_hour due_web_hour tagged_jobs_def)
  from 1 2 3 4 5 6 show ?thesis by simp
qed

text \<open>
  C10. When the webhook is unset, empty, or made of white space only, the tick posts no
  alert; its outcome (whether it fails, and with which counts), the results of its jobs
  and the job requests it sends are those of the same tick with any other webhook setting.
\<close>

theorem no_webhook_no_alerts:
  assumes "case SLACK_WEBHOOK_URL env of None \<Rightarrow> True | Some u \<Rightarrow> list_all is_js_whitespace u"
  shows "filter is_SlackFetch (events (scheduled rt cron env w0)) = []
         \<and> outcome (scheduled rt cron env w0) =
             outcome (scheduled rt cron (env\<lparr>SLACK_WEBHOOK_URL := hook\<rparr>) w0)
         \<and> job_results rt cron env w0 =
             job_results rt cron (env\<lparr>SLACK_WEBHOOK_URL := hook\<rparr>) w0
         \<and> filter is_JobFetch (events (scheduled rt cron env w0)) =
             filter is_JobFetch (events (scheduled rt cron (env\<lparr>SLACK_WEBHOOK_URL := hook\<rparr>) w0))"
proof -
  have none: "filter is_SlackFetch (events (scheduled rt cron env w0)) = []"
  proof (cases "ENABLED env = Some (js ''true'')")
    case False
    then show ?thesis by (simp add: scheduled_disabled)
  next
    case True
    show ?thesis
    proof (cases "due_jobs WORKER_CRON_TO_JOBS cron = []")
      case True
      with \<open>ENABLED env = Some (js ''true'')\<close> show ?thesis by (simp add: scheduled_undispatched)
    next
      case False
      with True assms show ?thesis
        by (simp add: scheduled_dispatch tick_body_eq send_alerts_without_webhook run_jobs_no_slack)
    qed
  qed
  have out: "outcome (scheduled rt cron env w0) =
             outcome (scheduled rt cron (env\<lparr>SLACK_WEBHOOK_URL := hook\<rparr>) w0)"
    by (simp add: scheduled_outcome job_results_webhook)
  have res: "job_results rt cron env w0 =
             job_results rt cron (env\<lparr>SLACK_WEBHOOK_URL := hook\<rparr>) w0"
    by (simp add: job_results_webhook)
  have fetches: "filter is_JobFetch (events (scheduled rt cron env w0)) =
             filter is_JobFetch (events (scheduled rt cron (env\<lparr>SLACK_WEBHOOK_URL := hook\<rparr>) w0))"
    by (simp add: scheduled_job_fetches job_request_webhook)
  from none out res fetches show ?thesis by blast
qed

text \<open>
  A webhook of four white space code units against a backend that answers 500: no alert
  is posted, where the configured webhook posts one, and both ticks fail with \<open>1/1\<close> and
  \<open>unexpected failures=1\<close>.
\<close>

theorem no_webhook_no_alerts_witness:
  "(case SLACK_WEBHOOK_URL (demo_env\<lparr>SLACK_WEBHOOK_URL := Some blank_webhook\<rparr>) of
      None \<Rightarrow> True | Some u \<Rightarrow> list_all is_js_whitespace u)
   \<and> filter is_SlackFetch
       (events (scheduled (demo_runtime (Resolved server_error)) (js ''0 * * * *'')
                  (demo_env\<lparr>SLACK_WEBHOOK_URL := Some blank_webhook\<rparr>) ())) = []
   \<and> length (filter is_SlackFetch
       (events (scheduled (demo_runtime (Resolved server_error)) (js ''0 * * * *'')
                  demo_env ()))) = 1
   \<and> outcome (scheduled (demo_runtime (Resolved server_error)) (js ''0 * * * *'')
                (demo_env\<lparr>SLACK_WEBHOOK_URL := Some blank_webhook\<rparr>) ()) =
       outcome (scheduled (demo_runtime (Resolved server_error)) (js ''0 * * * *'') demo_env ())
   \<and> outcome (scheduled (demo_runtime (Resolved server_error)) (js ''0 * * * *'') demo_env ()) =
       WorkRejected (ErrorObject
         (js ''Some jobs failed for cron=0 * * * *: 1/1 (unexpected failures=1)''))"
proof -
  let ?rt = "demo_runtime (Resolved server_error)"
  let ?cron = "js ''0 * * * *''"
  let ?env = "demo_env\<lparr>SLACK_WEBHOOK_URL := Some blank_webhook\<rparr>"
  have a: "case SLACK_WEBHOOK_URL ?env of None \<Rightarrow> True | Some u \<Rightarrow> list_all is_js_whitespace u"
    by (simp add: blank_webhook_def is_js_whitespace_def)
  have reset_hook: "?env\<lparr>SLACK_WEBHOOK_URL := Some (js ''https://hooks.example/T'')\<rparr> = demo_env"
    by (simp add: demo_env_def)
  from no_webhook_no_alerts [OF a, of ?rt ?cron "()" "Some (js ''https://hooks.example/T'')"]
  have none: "filter is_SlackFetch (events (scheduled ?rt ?cron ?env ())) = []"
    and same: "outcome (scheduled ?rt ?cron ?env ()) = outcome (scheduled ?rt ?cron demo_env ())"
    unfolding reset_hook by simp_all
  have on: "ENABLED demo_env = Some (js ''true'')"
    by (simp add: demo_env_def)
  have "outcome (scheduled ?rt ?cron demo_env ()) =
       WorkRejected (ErrorObject
         (js ''Some jobs failed for cron=0 * * * *: 1/1 (unexpected failures=1)''))"
    unfolding scheduled_outcome finalize_eq hour_results due_worker_hour
    using on by (simp add: show_nat.simps js_def)
  with a none same hour_alert_sent show ?thesis by simp
qed

end
